theory Spec2Isabelle
  imports Complex_Main "HOL-Library.Word" "HOL-Library.Sublist"
begin

section \<open>JavaScript strings\<close>

text \<open>
  A JavaScript string is a sequence of UTF-16 code units; \<open>length\<close>, \<open>substring\<close>,
  \<open>slice\<close>, \<open>includes\<close>, \<open>split\<close> and a regular expression without the \<open>u\<close> flag all
  count and compare code units. The source file's literals are ASCII except for the warning
  sign of the remediation text, which is the two code units U+26A0 U+FE0F.
\<close>

type_synonym jschar = "16 word"
type_synonym jsstring = "jschar list"

definition lit :: "string \<Rightarrow> jsstring" where
  "lit s = map of_char s"

text \<open>\<open>s.includes(p)\<close>: \<open>p\<close> occurs in \<open>s\<close> as a contiguous run of code units.\<close>

fun str_includes :: "jsstring \<Rightarrow> jsstring \<Rightarrow> bool" where
  "str_includes [] p = (p = [])"
| "str_includes (c # cs) p = (prefix p (c # cs) \<or> str_includes cs p)"

text \<open>
  \<open>String.prototype.trim\<close> removes the code units of ECMAScript's WhiteSpace and
  LineTerminator productions from both ends.
\<close>

definition isWhiteSpace :: "jschar \<Rightarrow> bool" where
  "isWhiteSpace c \<longleftrightarrow>
     c \<in> {0x0009, 0x000A, 0x000B, 0x000C, 0x000D, 0x0020, 0x00A0, 0x1680,
          0x2028, 0x2029, 0x202F, 0x205F, 0x3000, 0xFEFF}
     \<or> (0x2000 \<le> c \<and> c \<le> 0x200A)"

definition trim :: "jsstring \<Rightarrow> jsstring" where
  "trim s = rev (dropWhile isWhiteSpace (rev (dropWhile isWhiteSpace s)))"

text \<open>
  \<open>s.split(sep)\<close> for a separator of one code unit (the source splits on \<open>"="\<close> and on
  \<open>','\<close>): the segments between the separators, so \<open>"".split("=")\<close> is \<open>[""]\<close>.
\<close>

fun split :: "jschar \<Rightarrow> jsstring \<Rightarrow> jsstring list" where
  "split sep [] = [Nil]"
| "split sep (c # cs) =
     (if c = sep then Nil # split sep cs
      else (case split sep cs of Nil \<Rightarrow> [c # Nil] | seg # segs \<Rightarrow> (c # seg) # segs))"

text \<open>\<open>s.substring(0, n)\<close> and \<open>s.slice(0, n)\<close> for a constant \<open>n \<ge> 0\<close>.\<close>

definition substring0 :: "jsstring \<Rightarrow> nat \<Rightarrow> jsstring" where
  "substring0 s n = take n s"

section \<open>Credential formatter\<close>

text \<open>
  \<^verbatim>\<open>
  function formatSessionKeyCookie(sessionKey: string): string {
    const trimmed = sessionKey.trim();
    if (!trimmed.includes(";") && trimmed.split("=").length <= 2) {
      return `sessionKey=${trimmed}`;
    }
    return trimmed;
  }
  \<close>
\<close>

definition formatSessionKeyCookie :: "jsstring \<Rightarrow> jsstring" where
  "formatSessionKeyCookie sessionKey =
     (let trimmed = trim sessionKey in
      if \<not> str_includes trimmed (lit '';'') \<and> length (split 0x3D trimmed) \<le> 2
      then lit ''sessionKey='' @ trimmed
      else trimmed)"

section \<open>Errors, completions and the platform\<close>

text \<open>
  A thrown value is an \<open>Error\<close> object: a name and a message, both strings. A call either
  returns a value or throws; \<open>try\<close>/\<open>catch\<close> is a case distinction on the completion.
\<close>

record js_error =
  err_name :: jsstring
  err_message :: jsstring

datatype 'a completion = Returned 'a | Threw js_error

text \<open>\<open>new Error(m)\<close>.\<close>

definition new_Error :: "jsstring \<Rightarrow> js_error" where
  "new_Error m = \<lparr>err_name = lit ''Error'', err_message = m\<rparr>"

text \<open>\<open>String(error)\<close>, that is \<open>Error.prototype.toString\<close>.\<close>

definition error_toString :: "js_error \<Rightarrow> jsstring" where
  "error_toString e =
     (if err_name e = [] then err_message e
      else if err_message e = [] then err_name e
      else err_name e @ lit '': '' @ err_message e)"

text \<open>
  A JavaScript number, with the doubles abstracted to the rationals plus the three
  non-finite values; a JavaScript value as far as a parsed JSON body can hold one (an object
  lists its own properties, each key once).
\<close>

datatype jsnum = NaN | PosInf | NegInf | Finite rat

datatype jsval =
    JUndefined
  | JNull
  | JBool bool
  | JNum jsnum
  | JStr jsstring
  | JArr "jsval list"
  | JObj "(jsstring \<times> jsval) list"

text \<open>Truthiness, as \<open>!v\<close> and \<open>if (v)\<close> test it.\<close>

fun truthy :: "jsval \<Rightarrow> bool" where
  "truthy JUndefined = False"
| "truthy JNull = False"
| "truthy (JBool b) = b"
| "truthy (JNum n) = (n \<noteq> NaN \<and> n \<noteq> Finite 0)"
| "truthy (JStr s) = (s \<noteq> [])"
| "truthy (JArr xs) = True"
| "truthy (JObj kvs) = True"

text \<open>
  \<open>v.key\<close> for a value that is neither \<open>null\<close> nor \<open>undefined\<close> and a key that is no
  built-in property of strings, numbers, booleans or arrays (\<open>five_hour\<close>, \<open>utilization\<close>,
  \<open>resets_at\<close>); \<open>v?.key\<close> also accepts \<open>null\<close> and \<open>undefined\<close>.
\<close>

fun get_prop :: "jsval \<Rightarrow> jsstring \<Rightarrow> jsval" where
  "get_prop (JObj kvs) key = (case map_of kvs key of None \<Rightarrow> JUndefined | Some v \<Rightarrow> v)"
| "get_prop v key = JUndefined"

fun opt_get_prop :: "jsval \<Rightarrow> jsstring \<Rightarrow> jsval" where
  "opt_get_prop JUndefined key = JUndefined"
| "opt_get_prop JNull key = JUndefined"
| "opt_get_prop v key = get_prop v key"

text \<open>\<open>typeof v === "number"\<close>.\<close>

fun is_number :: "jsval \<Rightarrow> bool" where
  "is_number (JNum n) = True"
| "is_number v = False"

datatype transport = FetchApi | Undici | Axios

record request =
  req_url :: jsstring
  req_headers :: "(jsstring \<times> jsstring) list"

text \<open>
  What the source reads of each client's response. \<open>headers["set-cookie"]\<close> of undici is a
  string, an array of strings or \<open>undefined\<close>; \<open>headers.get("set-cookie")\<close> of the fetch
  API is a string or \<open>null\<close>; \<open>text()\<close> and \<open>json()\<close> may reject.
\<close>

datatype set_cookie_header = NoHeader | OneHeader jsstring | ManyHeaders "jsstring list"

record undici_response =
  u_statusCode :: nat
  u_set_cookie :: set_cookie_header
  u_body_json :: "js_error + jsval"

record fetch_response =
  f_status :: nat
  f_set_cookie :: "jsstring option"
  f_text :: "js_error + jsstring"
  f_json :: "js_error + jsval"

record axios_response =
  a_status :: nat
  a_data :: jsval

text \<open>
  The platform and the network are parameters: for each client, the outcome of a request
  (\<open>Inl\<close> a rejection) and the time it takes to settle in milliseconds, and the built-ins
  \<open>encodeURIComponent\<close> (which throws on a lone surrogate), \<open>JSON.stringify\<close> and
  \<open>new Date(v).getTime()\<close> (\<open>Inl\<close> when the constructor throws, as it does for an object
  that has no primitive value; \<open>Inr None\<close> for \<open>NaN\<close>). Every request is taken to settle.
\<close>

record world =
  fetch_api :: "request \<Rightarrow> js_error + fetch_response"
  fetch_latency_ms :: "request \<Rightarrow> nat"
  undici_request :: "request \<Rightarrow> js_error + undici_response"
  undici_latency_ms :: "request \<Rightarrow> nat"
  axios_get :: "request \<Rightarrow> js_error + axios_response"
  encodeURIComponent :: "jsstring \<Rightarrow> js_error + jsstring"
  JSON_stringify :: "jsval \<Rightarrow> jsstring"
  Date_getTime :: "jsval \<Rightarrow> js_error + int option"

section \<open>Constants and headers\<close>

definition API_BASE_URL :: jsstring where
  "API_BASE_URL = lit ''https://claude.ai''"

definition API_USAGE_PATH :: jsstring where
  "API_USAGE_PATH = lit ''/api/organizations''"

definition CF_BM_COOKIE_CACHE_TTL_MS :: int where
  "CF_BM_COOKIE_CACHE_TTL_MS = 5 * 60 * 1000"

definition REQUEST_TIMEOUT_MS :: nat where
  "REQUEST_TIMEOUT_MS = 10000"

definition ERROR_MESSAGE_MAX_LENGTH :: nat where
  "ERROR_MESSAGE_MAX_LENGTH = 200"

definition ERROR_DETAILS_MAX_LENGTH :: nat where
  "ERROR_DETAILS_MAX_LENGTH = 500"

definition getStandardHeaders :: "jsstring \<Rightarrow> (jsstring \<times> jsstring) list" where
  "getStandardHeaders cookieValue =
     [(lit ''Cookie'', cookieValue),
      (lit ''User-Agent'', lit ''Mozilla/5.0 (Windows NT 10.0; Win64; x64) AppleWebKit/537.36 (KHTML, like Gecko) Chrome/120.0.0.0 Safari/537.36''),
      (lit ''Accept'', [0x2A, 0x2F, 0x2A]),
      (lit ''Accept-Language'', lit ''en-US,en;q=0.9''),
      (lit ''Accept-Encoding'', lit ''gzip, deflate, br''),
      (lit ''Cache-Control'', lit ''no-cache''),
      (lit ''Connection'', lit ''keep-alive'')]"

section \<open>Cookie cache and cookie acquirer\<close>

text \<open>The two module-level variables, initially \<open>null\<close> and \<open>0\<close>.\<close>

record cache =
  cfBmCookie :: "jsstring option"
  cfBmCookieExpiry :: int

definition initial_cache :: cache where
  "initial_cache = \<lparr>cfBmCookie = None, cfBmCookieExpiry = 0\<rparr>"

text \<open>
  \<open>cookie.match(/__cf_bm=([^;]+)/)\<close>: the first position where \<open>__cf_bm=\<close> is followed by
  at least one code unit other than \<open>;\<close>; the capture group is the longest run of such
  code units. The result is the capture group, \<open>None\<close> for \<open>null\<close>.
\<close>

fun cf_bm_match :: "jsstring \<Rightarrow> jsstring option" where
  "cf_bm_match [] = None"
| "cf_bm_match (c # cs) =
     (let group = takeWhile (\<lambda>x. x \<noteq> 0x3B) (drop 8 (c # cs)) in
      if prefix (lit ''__cf_bm='') (c # cs) \<and> group \<noteq> [] then Some group
      else cf_bm_match cs)"

text \<open>The \<open>for (const cookie of ...)\<close> loop: the capture of the first entry that matches.\<close>

fun scan_cookies :: "jsstring list \<Rightarrow> jsstring option" where
  "scan_cookies [] = None"
| "scan_cookies (cookie # rest) =
     (case cf_bm_match cookie of Some v \<Rightarrow> Some v | None \<Rightarrow> scan_cookies rest)"

text \<open>
  \<open>Promise.race([requestPromise, timeoutPromise])\<close>: the request's outcome when it settles
  before the timer, the timer's rejection otherwise.
\<close>

definition race_timeout :: "nat \<Rightarrow> js_error + 'a \<Rightarrow> js_error + 'a" where
  "race_timeout latency outcome =
     (if latency < REQUEST_TIMEOUT_MS then outcome
      else Inl (new_Error (lit ''Timeout fetching __cf_bm cookie'')))"

text \<open>
  The \<open>AbortController\<close> of the fallback: the fetch is aborted when the timer fires first,
  and then rejects with an \<open>AbortError\<close>.
\<close>

definition abort_after_timeout :: "nat \<Rightarrow> js_error + 'a \<Rightarrow> js_error + 'a" where
  "abort_after_timeout latency outcome =
     (if latency < REQUEST_TIMEOUT_MS then outcome
      else Inl \<lparr>err_name = lit ''AbortError'', err_message = lit ''This operation was aborted''\<rparr>)"

text \<open>
  The body of the outer \<open>try\<close> (undici) and of the inner \<open>try\<close> (fetch): \<open>Inl\<close> when it
  throws, \<open>Inr (Some v)\<close> when an entry matches with capture \<open>v\<close>, \<open>Inr None\<close> when it
  runs to its end without a match.
\<close>

definition prime_with_undici :: "world \<Rightarrow> request \<Rightarrow> js_error + jsstring option" where
  "prime_with_undici w req =
     (case race_timeout (undici_latency_ms w req) (undici_request w req) of
        Inl e \<Rightarrow> Inl e
      | Inr response \<Rightarrow>
          Inr (case u_set_cookie response of
                 NoHeader \<Rightarrow> None
               | OneHeader setCookieHeader \<Rightarrow>
                   if setCookieHeader = [] then None else scan_cookies [setCookieHeader]
               | ManyHeaders cookieArray \<Rightarrow> scan_cookies cookieArray))"

definition prime_with_fetch :: "world \<Rightarrow> request \<Rightarrow> js_error + jsstring option" where
  "prime_with_fetch w req =
     (case abort_after_timeout (fetch_latency_ms w req) (fetch_api w req) of
        Inl e2 \<Rightarrow> Inl e2
      | Inr response \<Rightarrow>
          Inr (case f_set_cookie response of
                 None \<Rightarrow> None
               | Some setCookieHeaders \<Rightarrow>
                   if setCookieHeaders = [] then None
                   else scan_cookies (map trim (split 0x2C setCookieHeaders))))"

text \<open>The two assignments and the \<open>return cfBmCookie\<close> that follow a match.\<close>

definition store_cookie ::
  "jsstring \<Rightarrow> int \<Rightarrow> transport list \<Rightarrow> jsstring option completion \<times> cache \<times> transport list" where
  "store_cookie v now attempts =
     (let st' = \<lparr>cfBmCookie = Some (lit ''__cf_bm='' @ v),
                 cfBmCookieExpiry = now + CF_BM_COOKIE_CACHE_TTL_MS\<rparr>
      in (Returned (cfBmCookie st'), st', attempts))"

text \<open>
  \<open>fetchCfBmCookie\<close>, with the clock reading \<open>now\<close> of \<open>Date.now()\<close> and the cache as
  explicit state. The result is the completion, the cache afterwards and the clients that
  were sent a request, in order.
\<close>

definition fetchCfBmCookie ::
  "world \<Rightarrow> int \<Rightarrow> jsstring \<Rightarrow> cache \<Rightarrow> jsstring option completion \<times> cache \<times> transport list" where
  "fetchCfBmCookie w now sessionKey st =
     (if (case cfBmCookie st of None \<Rightarrow> False | Some c \<Rightarrow> c \<noteq> []) \<and> now < cfBmCookieExpiry st
      then (Returned (cfBmCookie st), st, [])
      else
        let sessionKeyCookie = formatSessionKeyCookie sessionKey;
            headers = getStandardHeaders sessionKeyCookie;
            req = \<lparr>req_url = API_BASE_URL, req_headers = headers\<rparr>
        in case prime_with_undici w req of
             Inr (Some v) \<Rightarrow> store_cookie v now [Undici]
           | Inr None \<Rightarrow> (Returned None, st, [Undici])
           | Inl e \<Rightarrow>
               if \<not> str_includes (err_message e) (lit ''Timeout'') then
                 (case prime_with_fetch w req of
                    Inr (Some v) \<Rightarrow> store_cookie v now [Undici, FetchApi]
                  | Inr None \<Rightarrow> (Returned None, st, [Undici, FetchApi])
                  | Inl e2 \<Rightarrow> (Returned None, st, [Undici, FetchApi]))
               else (Returned None, st, [Undici]))"

text \<open>
  The caches that a run of the extension can hold: the initial one, and the one left by any
  call of \<open>fetchCfBmCookie\<close>, the only function that assigns the two variables.
\<close>

inductive reachable_cache :: "cache \<Rightarrow> bool" where
  initial: "reachable_cache initial_cache"
| call: "reachable_cache st \<Longrightarrow> fetchCfBmCookie w now sessionKey st = (r, st', attempts)
         \<Longrightarrow> reachable_cache st'"

section \<open>Request dispatcher\<close>

text \<open>A status code in a template literal: the decimal digits of a non-negative integer.\<close>

fun show_nat :: "nat \<Rightarrow> jsstring" where
  "show_nat n =
     (if n < 10 then [0x30 + of_nat n]
      else show_nat (n div 10) @ [0x30 + of_nat (n mod 10)])"

declare show_nat.simps [simp del]

text \<open>
  The test that the fallback loop and the final error synthesis both make on an error text:
  \<^verbatim>\<open>
  errorMsg.includes("Just a moment") || errorMsg.includes("cf-browser-verification") ||
  errorMsg.includes("challenge-platform") || errorMsg.includes("403")
  \<close>
\<close>

definition bot_challenge :: "jsstring \<Rightarrow> bool" where
  "bot_challenge errorMsg \<longleftrightarrow>
     str_includes errorMsg (lit ''Just a moment'')
     \<or> str_includes errorMsg (lit ''cf-browser-verification'')
     \<or> str_includes errorMsg (lit ''challenge-platform'')
     \<or> str_includes errorMsg (lit ''403'')"

text \<open>
  Method 1, the fetch API: a response that is not \<open>ok\<close> (status outside 200 to 299) throws
  \<open>HTTP <status>: <first 200 code units of the body>\<close>; otherwise the parsed body is
  returned.
\<close>

definition method1 :: "world \<Rightarrow> request \<Rightarrow> jsval completion" where
  "method1 w req =
     (case fetch_api w req of
        Inl e \<Rightarrow> Threw e
      | Inr response \<Rightarrow>
          if \<not> (200 \<le> f_status response \<and> f_status response \<le> 299) then
            (case f_text response of
               Inl e \<Rightarrow> Threw e
             | Inr text \<Rightarrow>
                 Threw (new_Error (lit ''HTTP '' @ show_nat (f_status response) @ lit '': ''
                                   @ substring0 text ERROR_MESSAGE_MAX_LENGTH)))
          else
            (case f_json response of
               Inl e \<Rightarrow> Threw e
             | Inr data \<Rightarrow> Returned data))"

text \<open>Method 2, undici: the body is parsed before the status is looked at.\<close>

definition method2 :: "world \<Rightarrow> request \<Rightarrow> jsval completion" where
  "method2 w req =
     (case undici_request w req of
        Inl e \<Rightarrow> Threw e
      | Inr response \<Rightarrow>
          (case u_body_json response of
             Inl e \<Rightarrow> Threw e
           | Inr data \<Rightarrow>
               if 200 \<le> u_statusCode response \<and> u_statusCode response < 300 then Returned data
               else Threw (new_Error (lit ''HTTP '' @ show_nat (u_statusCode response) @ lit '': ''
                                      @ substring0 (JSON_stringify w data) ERROR_MESSAGE_MAX_LENGTH))))"

text \<open>Method 3, axios with \<open>validateStatus: () => true\<close>.\<close>

definition method3 :: "world \<Rightarrow> request \<Rightarrow> jsval completion" where
  "method3 w req =
     (case axios_get w req of
        Inl e \<Rightarrow> Threw e
      | Inr response \<Rightarrow>
          if 200 \<le> a_status response \<and> a_status response < 300 then Returned (a_data response)
          else
            let responseData = (case a_data response of
                                  JStr s \<Rightarrow> s
                                | d \<Rightarrow> JSON_stringify w d)
            in Threw (new_Error (lit ''HTTP '' @ show_nat (a_status response) @ lit '': ''
                                 @ substring0 responseData ERROR_MESSAGE_MAX_LENGTH)))"

text \<open>
  The fallback loop over the \<open>methods\<close> array, with \<open>lastError\<close> as accumulator:
  \<^verbatim>\<open>
  for (const method of methods) {
    try { return await method(); }
    catch (error: any) {
      lastError = error;
      const errorMsg = error.message || String(error);
      if (<bot challenge test on errorMsg>) { continue; }
      if (!errorMsg.includes("HTTP")) { continue; }
      throw error;
    }
  }
  \<close>
  The loop either ends the call (with the value returned or the error rethrown) or runs out
  of methods, leaving \<open>lastError\<close>. Each method carries the name of its client, and the
  second component of the result lists the methods that were called, in order.
\<close>

datatype loop_exit = Finished "jsval completion" | Exhausted "js_error option"

definition loop_errorMsg :: "js_error \<Rightarrow> jsstring" where
  "loop_errorMsg error =
     (if err_message error \<noteq> [] then err_message error else error_toString error)"

fun try_methods ::
  "(transport \<times> (unit \<Rightarrow> jsval completion)) list \<Rightarrow> js_error option \<Rightarrow> loop_exit \<times> transport list" where
  "try_methods [] lastError = (Exhausted lastError, [])"
| "try_methods ((t, method) # rest) lastError =
     (case method () of
        Returned data \<Rightarrow> (Finished (Returned data), [t])
      | Threw error \<Rightarrow>
          let errorMsg = loop_errorMsg error in
          if bot_challenge errorMsg then
            (case try_methods rest (Some error) of (exit, called) \<Rightarrow> (exit, t # called))
          else if \<not> str_includes errorMsg (lit ''HTTP'') then
            (case try_methods rest (Some error) of (exit, called) \<Rightarrow> (exit, t # called))
          else (Finished (Threw error), [t]))"

text \<open>
  The text appended for a bot challenge. The warning sign is U+26A0 U+FE0F; \<open>\n\<close> is the
  code unit 0x0A.
\<close>

definition nl :: jsstring where
  "nl = [0x0A]"

definition cloudflare_remediation :: jsstring where
  "cloudflare_remediation =
     nl @ nl @ [0x26A0, 0xFE0F] @ lit '' Cloudflare bot protection detected.'' @ nl @ nl
     @ lit ''This is a known limitation - Cloudflare blocks automated requests based on TLS fingerprinting.'' @ nl
     @ lit ''Postman works because it uses a different HTTP client (libcurl) that Cloudflare trusts.'' @ nl @ nl
     @ lit ''Possible solutions:'' @ nl
     @ lit ''1. Use a fresh Cookie header from Postman (__cf_bm cookie expires quickly)'' @ nl
     @ lit ''2. Use a proxy service that can handle Cloudflare challenges'' @ nl
     @ lit ''3. Contact Claude.ai to request API access or whitelisting''"

text \<open>
  The error thrown after the loop:
  \<^verbatim>\<open>
  const errorMsg = lastError?.message || "Unknown error";
  let errorDetails = errorMsg;
  let errorBody = "";
  if (<bot challenge test on errorMsg>) { errorBody = <remediation text>; }
  else { errorBody = errorMsg.substring(0, ERROR_DETAILS_MAX_LENGTH); }
  throw new Error(`${errorDetails}${errorBody}`);
  \<close>
\<close>

definition final_errorMsg :: "js_error option \<Rightarrow> jsstring" where
  "final_errorMsg lastError =
     (case lastError of
        None \<Rightarrow> lit ''Unknown error''
      | Some e \<Rightarrow> if err_message e \<noteq> [] then err_message e else lit ''Unknown error'')"

definition exhausted_error :: "js_error option \<Rightarrow> js_error" where
  "exhausted_error lastError =
     (let errorMsg = final_errorMsg lastError;
          errorDetails = errorMsg;
          errorBody = (if bot_challenge errorMsg then cloudflare_remediation
                       else substring0 errorMsg ERROR_DETAILS_MAX_LENGTH)
      in new_Error (errorDetails @ errorBody))"

text \<open>
  \<open>fetchUsage\<close>: the completion, the cache afterwards, and the methods of the fallback
  loop that were called, in order.
\<close>

definition fetchUsage ::
  "world \<Rightarrow> int \<Rightarrow> jsstring \<Rightarrow> jsstring \<Rightarrow> cache \<Rightarrow> jsval completion \<times> cache \<times> transport list" where
  "fetchUsage w now org sessionKey st =
     (case encodeURIComponent w org of
        Inl e \<Rightarrow> (Threw e, st, [])
      | Inr encoded \<Rightarrow>
          (let url = API_BASE_URL @ API_USAGE_PATH @ lit ''/'' @ encoded @ lit ''/usage'';
               sessionKeyCookie = formatSessionKeyCookie sessionKey
           in (case fetchCfBmCookie w now sessionKey st of
                 (Threw e, st', primed) \<Rightarrow> (Threw e, st', [])
               | (Returned cfBm, st', primed) \<Rightarrow>
                   (let cookieValue = (case cfBm of
                                         None \<Rightarrow> sessionKeyCookie
                                       | Some c \<Rightarrow> (if c \<noteq> [] then c @ lit ''; '' @ sessionKeyCookie
                                                    else sessionKeyCookie));
                        standardHeaders = getStandardHeaders cookieValue;
                        req = \<lparr>req_url = url, req_headers = standardHeaders\<rparr>;
                        methods = [(FetchApi, \<lambda>_. method1 w req),
                                   (Undici, \<lambda>_. method2 w req),
                                   (Axios, \<lambda>_. method3 w req)]
                    in (case try_methods methods None of
                          (Finished c, called) \<Rightarrow> (c, st', called)
                        | (Exhausted lastError, called) \<Rightarrow>
                            (Threw (exhausted_error lastError), st', called))))))"

section \<open>Caller-facing layer\<close>

text \<open>
  \<^verbatim>\<open>
  function clampPercent(n: number): number {
    if (!Number.isFinite(n)) return 0;
    return Math.max(0, Math.min(100, Math.round(n)));
  }
  \<close>
  \<open>Math.round\<close> rounds to the nearest integer, a tie towards plus infinity.
\<close>

definition clampPercent :: "jsnum \<Rightarrow> jsnum" where
  "clampPercent n =
     (case n of
        Finite x \<Rightarrow> Finite (of_int (max 0 (min 100 \<lfloor>x + 1 / 2\<rfloor>)))
      | _ \<Rightarrow> Finite 0)"

text \<open>Subtraction of numbers, as in \<open>100 - used\<close>.\<close>

fun js_minus :: "jsnum \<Rightarrow> jsnum \<Rightarrow> jsnum" where
  "js_minus (Finite a) (Finite b) = Finite (a - b)"
| "js_minus NaN y = NaN"
| "js_minus x NaN = NaN"
| "js_minus PosInf PosInf = NaN"
| "js_minus NegInf NegInf = NaN"
| "js_minus PosInf y = PosInf"
| "js_minus NegInf y = NegInf"
| "js_minus (Finite a) PosInf = NegInf"
| "js_minus (Finite a) NegInf = PosInf"

text \<open>
  \<^verbatim>\<open>
  function formatLocal(iso: string): string {
    const d = new Date(iso);
    return Number.isNaN(d.getTime()) ? iso : d.toLocaleString();
  }
  \<close>
  The argument is whatever truthy value the body holds under \<open>resets_at\<close>. \<open>new Date(iso)\<close>
  throws a \<open>TypeError\<close> when that value is an object without a primitive value (a JSON
  object with an own \<open>toString\<close> property, which is not callable), and then
  \<open>formatLocal\<close> throws. Otherwise the result is kept symbolic: the local rendering of a
  time value, or the argument as it is.
\<close>

datatype reset_display = LocaleString int | Verbatim jsval

definition formatLocal :: "world \<Rightarrow> jsval \<Rightarrow> reset_display completion" where
  "formatLocal w isoArg =
     (case Date_getTime w isoArg of
        Inl e \<Rightarrow> Threw e
      | Inr None \<Rightarrow> Returned (Verbatim isoArg)
      | Inr (Some ms) \<Rightarrow> Returned (LocaleString ms))"

text \<open>
  \<^verbatim>\<open>
  function safeErrorMessage(e: any): string {
    const msg = typeof e?.message === "string" ? e.message : "Unknown error";
    return msg.slice(0, ERROR_MESSAGE_MAX_LENGTH);
  }
  \<close>
\<close>

definition safeErrorMessage :: "js_error \<Rightarrow> jsstring" where
  "safeErrorMessage e = substring0 (err_message e) ERROR_MESSAGE_MAX_LENGTH"

text \<open>
  \<open>refreshAndRender\<close>. What it writes to the status bar item is kept symbolic: the four
  status texts, with the values that the text and the tooltip are built from. The body of
  the \<open>try\<close> runs from the call of \<open>fetchUsage\<close> to the last assignment, so an error
  thrown by \<open>fetchUsage\<close> or by \<open>formatLocal\<close> reaches the one \<open>catch\<close> block.
\<close>

datatype display = PercentLeft jsnum | PercentUsed jsnum

datatype status_view =
    NotConfigured
  | UnexpectedShape
  | Usage display reset_display
  | Failure jsstring bool

text \<open>
  The \<open>catch\<close> block:
  \<^verbatim>\<open>
  const errorMsg = safeErrorMessage(e);
  const is403 = errorMsg.includes("403");
  status.text = "$(error) Claude ERR";
  let tooltip = `Failed to refresh Claude usage.\n\nError: ${errorMsg}`;
  if (is403) { tooltip += <troubleshooting steps>; }
  \<close>
\<close>

definition show_error :: "js_error \<Rightarrow> status_view" where
  "show_error e =
     (let errorMsg = safeErrorMessage e;
          is403 = str_includes errorMsg (lit ''403'')
      in Failure errorMsg is403)"

definition refreshAndRender ::
  "world \<Rightarrow> int \<Rightarrow> jsstring \<Rightarrow> jsstring option \<Rightarrow> jsstring \<Rightarrow> cache \<Rightarrow> status_view \<times> cache" where
  "refreshAndRender w now organizationCode secret mode st =
     (let org = trim organizationCode;
          sessionKey = (case secret of None \<Rightarrow> [] | Some s \<Rightarrow> trim s)
      in if org = [] \<or> sessionKey = [] then (NotConfigured, st)
         else
           (case fetchUsage w now org sessionKey st of
              (Returned data, st', called) \<Rightarrow>
                let five = opt_get_prop data (lit ''five_hour'')
                in if \<not> truthy five \<or> \<not> is_number (get_prop five (lit ''utilization''))
                      \<or> \<not> truthy (get_prop five (lit ''resets_at''))
                   then (UnexpectedShape, st')
                   else
                     (case get_prop five (lit ''utilization'') of
                        JNum utilization \<Rightarrow>
                          let used = clampPercent utilization;
                              left = clampPercent (js_minus (Finite 100) used)
                          in (case formatLocal w (get_prop five (lit ''resets_at'')) of
                                Threw e \<Rightarrow> (show_error e, st')
                              | Returned resetsLocal \<Rightarrow>
                                  let displayValue = (if mode = lit ''left'' then PercentLeft left
                                                      else PercentUsed used)
                                  in (Usage displayValue resetsLocal, st'))
                      | _ \<Rightarrow> (UnexpectedShape, st'))
            | (Threw e, st', called) \<Rightarrow> (show_error e, st')))"

section \<open>Notions used to state the properties\<close>

text \<open>A string that \<open>trim\<close> leaves as it is: empty, or with no white space at either end.\<close>

definition trimmed_form :: "jsstring \<Rightarrow> bool" where
  "trimmed_form t \<longleftrightarrow> t = [] \<or> (\<not> isWhiteSpace (hd t) \<and> \<not> isWhiteSpace (last t))"

text \<open>The test of the cache at the head of \<open>fetchCfBmCookie\<close>.\<close>

definition cache_hit :: "cache \<Rightarrow> int \<Rightarrow> bool" where
  "cache_hit st now \<longleftrightarrow>
     (case cfBmCookie st of None \<Rightarrow> False | Some c \<Rightarrow> c \<noteq> []) \<and> now < cfBmCookieExpiry st"

text \<open>The priming request that \<open>fetchCfBmCookie\<close> sends for a credential.\<close>

definition priming_request :: "jsstring \<Rightarrow> request" where
  "priming_request sessionKey =
     \<lparr>req_url = API_BASE_URL, req_headers = getStandardHeaders (formatSessionKeyCookie sessionKey)\<rparr>"

text \<open>A cookie value as the regular expression captures it: non-empty, without \<open>;\<close>.\<close>

definition cf_bm_value :: "jsstring \<Rightarrow> bool" where
  "cf_bm_value v \<longleftrightarrow> v \<noteq> [] \<and> 0x3B \<notin> set v"

text \<open>The cache after a value \<open>v\<close> was extracted by a call that read the clock as \<open>now\<close>.\<close>

definition stored :: "jsstring \<Rightarrow> int \<Rightarrow> cache" where
  "stored v now = \<lparr>cfBmCookie = Some (lit ''__cf_bm='' @ v),
                   cfBmCookieExpiry = now + CF_BM_COOKIE_CACHE_TTL_MS\<rparr>"

text \<open>
  The request that \<open>fetchUsage\<close> hands to its three methods, from the escaped organization
  id, the credential and the cookie that \<open>fetchCfBmCookie\<close> returned.
\<close>

definition usage_request :: "jsstring \<Rightarrow> jsstring \<Rightarrow> jsstring option \<Rightarrow> request" where
  "usage_request encoded sessionKey cfBm =
     \<lparr>req_url = API_BASE_URL @ API_USAGE_PATH @ lit ''/'' @ encoded @ lit ''/usage'',
      req_headers = getStandardHeaders
        (case cfBm of
           None \<Rightarrow> formatSessionKeyCookie sessionKey
         | Some c \<Rightarrow> (if c \<noteq> [] then c @ lit ''; '' @ formatSessionKeyCookie sessionKey
                      else formatSessionKeyCookie sessionKey))\<rparr>"

text \<open>The method of the \<open>methods\<close> array that uses a given client.\<close>

fun run_strategy :: "transport \<Rightarrow> world \<Rightarrow> request \<Rightarrow> jsval completion" where
  "run_strategy FetchApi w req = method1 w req"
| "run_strategy Undici w req = method2 w req"
| "run_strategy Axios w req = method3 w req"

text \<open>A client answered with a status in 200 to 299 and \<open>d\<close> is the parsed body.\<close>

fun success_2xx :: "transport \<Rightarrow> world \<Rightarrow> request \<Rightarrow> jsval \<Rightarrow> bool" where
  "success_2xx FetchApi w req d \<longleftrightarrow>
     (case fetch_api w req of
        Inl e \<Rightarrow> False
      | Inr r \<Rightarrow> 200 \<le> f_status r \<and> f_status r < 300 \<and> f_json r = Inr d)"
| "success_2xx Undici w req d \<longleftrightarrow>
     (case undici_request w req of
        Inl e \<Rightarrow> False
      | Inr r \<Rightarrow> 200 \<le> u_statusCode r \<and> u_statusCode r < 300 \<and> u_body_json r = Inr d)"
| "success_2xx Axios w req d \<longleftrightarrow>
     (case axios_get w req of
        Inl e \<Rightarrow> False
      | Inr r \<Rightarrow> 200 \<le> a_status r \<and> a_status r < 300 \<and> a_data r = d)"

text \<open>
  An error on which the fallback loop stops: its text holds \<open>HTTP\<close> and none of the four
  bot-challenge markers.
\<close>

definition genuine_http_error :: "js_error \<Rightarrow> bool" where
  "genuine_http_error e \<longleftrightarrow>
     str_includes (loop_errorMsg e) (lit ''HTTP'') \<and> \<not> bot_challenge (loop_errorMsg e)"

text \<open>
  A message holds the remediation block: the line that names the Cloudflare bot protection
  (with the warning sign U+26A0 U+FE0F), the two lines that explain it, and the heading and
  the three numbered steps of the remedy, as the source spells them.
\<close>

definition holds_remediation_block :: "jsstring \<Rightarrow> bool" where
  "holds_remediation_block m \<longleftrightarrow>
     str_includes m ([0x26A0, 0xFE0F] @ lit '' Cloudflare bot protection detected.'')
     \<and> str_includes m
         (lit ''This is a known limitation - Cloudflare blocks automated requests based on TLS fingerprinting.'')
     \<and> str_includes m
         (lit ''Postman works because it uses a different HTTP client (libcurl) that Cloudflare trusts.'')
     \<and> str_includes m (lit ''Possible solutions:'')
     \<and> str_includes m
         (lit ''1. Use a fresh Cookie header from Postman (__cf_bm cookie expires quickly)'')
     \<and> str_includes m (lit ''2. Use a proxy service that can handle Cloudflare challenges'')
     \<and> str_includes m (lit ''3. Contact Claude.ai to request API access or whitelisting'')"

section \<open>Example environments\<close>

text \<open>
  An environment in which each client gives one fixed outcome to every request, after the
  same delay; \<open>encodeURIComponent\<close> leaves its argument as it is (as it does for letters
  and digits), \<open>JSON.stringify\<close> prints \<open>{}\<close> (it is only applied to an empty object
  below). Of the values that the examples hand to \<open>new Date\<close>, the string
  \<open>2025-01-01T00:00:00Z\<close> parses, an object with an own \<open>toString\<close> property makes the
  constructor throw, and the other strings give \<open>NaN\<close>.
\<close>

definition no_primitive :: js_error where
  "no_primitive = \<lparr>err_name = lit ''TypeError'',
                    err_message = lit ''Cannot convert object to primitive value''\<rparr>"

fun example_Date :: "jsval \<Rightarrow> js_error + int option" where
  "example_Date (JStr s) =
     (if s = lit ''2025-01-01T00:00:00Z'' then Inr (Some 1735689600000) else Inr None)"
| "example_Date (JObj kvs) =
     (if map_of kvs (lit ''toString'') \<noteq> None then Inl no_primitive else Inr None)"
| "example_Date v = Inr None"

definition example_world ::
  "js_error + fetch_response \<Rightarrow> js_error + undici_response \<Rightarrow> js_error + axios_response \<Rightarrow> nat \<Rightarrow> world" where
  "example_world f u a latency =
     \<lparr>fetch_api = (\<lambda>_. f), fetch_latency_ms = (\<lambda>_. latency),
      undici_request = (\<lambda>_. u), undici_latency_ms = (\<lambda>_. latency),
      axios_get = (\<lambda>_. a),
      encodeURIComponent = (\<lambda>s. Inr s),
      JSON_stringify = (\<lambda>_. lit ''{}''),
      Date_getTime = example_Date\<rparr>"

definition network_down :: js_error where
  "network_down = \<lparr>err_name = lit ''TypeError'', err_message = lit ''fetch failed''\<rparr>"

definition not_json :: js_error where
  "not_json = \<lparr>err_name = lit ''SyntaxError'', err_message = lit ''Unexpected token''\<rparr>"

definition fetch_answers :: "nat \<Rightarrow> jsstring \<Rightarrow> js_error + jsval \<Rightarrow> js_error + fetch_response" where
  "fetch_answers status body parsed =
     Inr \<lparr>f_status = status, f_set_cookie = None, f_text = Inr body, f_json = parsed\<rparr>"

definition undici_answers :: "nat \<Rightarrow> set_cookie_header \<Rightarrow> js_error + jsval \<Rightarrow> js_error + undici_response" where
  "undici_answers status cookies parsed =
     Inr \<lparr>u_statusCode = status, u_set_cookie = cookies, u_body_json = parsed\<rparr>"

definition axios_answers :: "nat \<Rightarrow> jsval \<Rightarrow> js_error + axios_response" where
  "axios_answers status d = Inr \<lparr>a_status = status, a_data = d\<rparr>"

definition usage_body :: "jsval \<Rightarrow> jsval \<Rightarrow> jsval" where
  "usage_body utilization resets_at =
     JObj [(lit ''five_hour'', JObj [(lit ''utilization'', utilization), (lit ''resets_at'', resets_at)])]"

text \<open>The environments of the examples below.\<close>

definition env_offline :: "nat \<Rightarrow> world" where
  "env_offline latency =
     example_world (Inl network_down) (Inl network_down) (Inl network_down) latency"

definition env_cookie :: world where
  "env_cookie =
     example_world (Inl network_down)
       (undici_answers 200 (ManyHeaders [lit ''__cf_bm=abc123; path=/'']) (Inl not_json))
       (Inl network_down) 30"

definition example_usage :: jsval where
  "example_usage = usage_body (JNum (Finite 42)) (JStr (lit ''2025-01-01T00:00:00Z''))"

definition env_third_succeeds :: world where
  "env_third_succeeds =
     example_world (fetch_answers 403 (lit ''Just a moment...'') (Inl not_json))
       (undici_answers 403 NoHeader (Inr (JObj [])))
       (axios_answers 200 example_usage) 30"

definition env_not_found :: world where
  "env_not_found =
     example_world (fetch_answers 404 (lit ''Not Found'') (Inl not_json))
       (Inl network_down) (Inl network_down) 30"

definition env_challenged :: world where
  "env_challenged =
     example_world (fetch_answers 403 (lit ''Just a moment...'') (Inl not_json))
       (undici_answers 403 NoHeader (Inr (JObj [])))
       (axios_answers 403 (JStr (lit ''Just a moment...''))) 30"

definition env_echo :: world where
  "env_echo =
     example_world (fetch_answers 403 (lit ''Just a moment...'') (Inl not_json))
       (undici_answers 403 NoHeader (Inr (JObj [])))
       (axios_answers 403 (JStr (lit ''bad cookie sessionKey=sk-test-token''))) 30"

definition env_infinite :: world where
  "env_infinite =
     example_world (fetch_answers 200 [] (Inr (usage_body (JNum PosInf) (JStr (lit ''soon'')))))
       (Inl network_down) (Inl network_down) 30"

definition connect_timeout :: js_error where
  "connect_timeout = \<lparr>err_name = lit ''ConnectTimeoutError'',
                       err_message = lit ''Connect Timeout Error''\<rparr>"

definition connect_etimedout :: js_error where
  "connect_etimedout = \<lparr>err_name = lit ''Error'',
                         err_message = lit ''connect ETIMEDOUT 104.18.0.1:443''\<rparr>"

definition env_connect_timeout :: world where
  "env_connect_timeout =
     example_world (Inl network_down) (Inl connect_timeout) (Inl network_down) 9000"

definition env_etimedout :: world where
  "env_etimedout =
     example_world (Inl network_down) (Inl connect_etimedout) (Inl network_down) 300"

definition env_bad_date :: world where
  "env_bad_date =
     example_world
       (fetch_answers 200 []
          (Inr (usage_body (JNum (Finite 42)) (JObj [(lit ''toString'', JNum (Finite 0))]))))
       (Inl network_down) (Inl network_down) 30"

section \<open>Facts about the string operations\<close>

lemma str_includes_iff: "str_includes s p \<longleftrightarrow> (\<exists>a b. s = a @ p @ b)"
proof (induction s)
  case Nil
  then show ?case by auto
next
  case (Cons c cs)
  show ?case
  proof
    assume "str_includes (c # cs) p"
    then consider "prefix p (c # cs)" | "str_includes cs p" by auto
    then show "\<exists>a b. c # cs = a @ p @ b"
    proof cases
      case 1
      then obtain b where "c # cs = p @ b" by (auto simp: prefix_def)
      then have "c # cs = [] @ p @ b" by simp
      then show ?thesis by blast
    next
      case 2
      with Cons.IH obtain a b where "cs = a @ p @ b" by blast
      then have "c # cs = (c # a) @ p @ b" by simp
      then show ?thesis by blast
    qed
  next
    assume "\<exists>a b. c # cs = a @ p @ b"
    then obtain a b where ab: "c # cs = a @ p @ b" by blast
    show "str_includes (c # cs) p"
    proof (cases a)
      case Nil
      with ab have "prefix p (c # cs)" by (simp add: prefix_def)
      then show ?thesis by simp
    next
      case (Cons x a')
      with ab have "cs = a' @ p @ b" by simp
      with Cons.IH have "str_includes cs p" by blast
      then show ?thesis by simp
    qed
  qed
qed

lemma str_includes_char: "str_includes s [c] \<longleftrightarrow> c \<in> set s"
  by (induction s) auto

lemma str_includes_appendI: "str_includes (a @ p) p"
proof -
  have "a @ p = a @ p @ []" by simp
  then show ?thesis unfolding str_includes_iff by blast
qed

lemma str_includes_append_left: "str_includes a p \<Longrightarrow> str_includes (a @ b) p"
proof -
  assume "str_includes a p"
  then obtain x y where "a = x @ p @ y" unfolding str_includes_iff by blast
  then have "a @ b = x @ p @ (y @ b)" by simp
  then show ?thesis unfolding str_includes_iff by blast
qed

lemma str_includes_take: "str_includes (take n s) p \<Longrightarrow> str_includes s p"
proof -
  assume "str_includes (take n s) p"
  then have "str_includes (take n s @ drop n s) p" by (rule str_includes_append_left)
  then show ?thesis by simp
qed

lemma split_not_Nil: "split sep s \<noteq> []"
  by (induction s) (auto split: list.splits)

lemma length_split: "length (split sep s) = Suc (count_list s sep)"
proof (induction s)
  case Nil
  then show ?case by simp
next
  case (Cons c cs)
  then show ?case using split_not_Nil [of sep cs]
    by (cases "split sep cs") auto
qed

lemma semicolon_lit: "lit '';'' = [0x3B]"
  by (simp add: lit_def)

lemma trim_fixed: "trimmed_form t \<Longrightarrow> trim t = t"
proof -
  assume t: "trimmed_form t"
  then have "dropWhile isWhiteSpace t = t"
    by (auto simp: trimmed_form_def dropWhile_eq_self_iff)
  moreover from t have "dropWhile isWhiteSpace (rev t) = rev t"
    by (auto simp: trimmed_form_def dropWhile_eq_self_iff hd_rev)
  ultimately show ?thesis by (simp add: trim_def)
qed

lemma trim_trimmed_form: "trimmed_form (trim s)"
proof (cases "trim s = []")
  case True
  then show ?thesis by (simp add: trimmed_form_def)
next
  case False
  define u where "u = dropWhile isWhiteSpace s"
  define v where "v = dropWhile isWhiteSpace (rev u)"
  have t: "trim s = rev v" by (simp add: trim_def u_def v_def)
  with False have v: "v \<noteq> []" by simp
  then have "\<not> isWhiteSpace (hd v)" unfolding v_def by (rule hd_dropWhile)
  then have l: "\<not> isWhiteSpace (last (trim s))" using v by (simp add: t last_rev)
  obtain w where w: "rev u = w @ v"
    by (metis v_def takeWhile_dropWhile_id)
  with v have u: "u \<noteq> []" by auto
  from w v have "last v = last (rev u)" by simp
  also have "\<dots> = hd u" using u by (simp add: last_rev)
  finally have "hd (trim s) = hd u" using v by (simp add: t hd_rev)
  moreover have "\<not> isWhiteSpace (hd u)" using u unfolding u_def by (rule hd_dropWhile)
  ultimately show ?thesis using l by (simp add: trimmed_form_def)
qed

lemma trim_idem: "trim (trim s) = trim s"
  by (rule trim_fixed) (rule trim_trimmed_form)

lemma sessionKey_prefix_trimmed_form:
  assumes "trimmed_form t"
  shows "trimmed_form (lit ''sessionKey='' @ t)"
proof -
  have h: "\<not> isWhiteSpace (hd (lit ''sessionKey='' @ t))"
    by (simp add: lit_def isWhiteSpace_def)
  have l: "\<not> isWhiteSpace (last (lit ''sessionKey='' @ t))"
  proof (cases "t = []")
    case True
    then show ?thesis by (simp add: lit_def isWhiteSpace_def)
  next
    case False
    with assms show ?thesis by (simp add: trimmed_form_def)
  qed
  from h l show ?thesis by (simp add: trimmed_form_def)
qed

lemma sessionKey_prefix_counts:
  "count_list (lit ''sessionKey='' @ t) 0x3D = Suc (count_list t 0x3D)"
  "(0x3B \<in> set (lit ''sessionKey='' @ t)) = (0x3B \<in> set t)"
  by (simp_all add: lit_def)

lemma formatSessionKeyCookie_cases:
  "formatSessionKeyCookie s =
     (if 0x3B \<notin> set (trim s) \<and> count_list (trim s) 0x3D \<le> 1
      then lit ''sessionKey='' @ trim s else trim s)"
  by (simp add: formatSessionKeyCookie_def Let_def semicolon_lit str_includes_char length_split)

section \<open>Facts about the cookie acquirer\<close>

lemma cf_bm_match_value: "cf_bm_match s = Some v \<Longrightarrow> cf_bm_value v"
proof (induction s)
  case Nil
  then show ?case by simp
next
  case (Cons c cs)
  then show ?case
    by (auto simp: Let_def cf_bm_value_def split: if_splits dest: set_takeWhileD)
qed

lemma scan_cookies_value: "scan_cookies cs = Some v \<Longrightarrow> cf_bm_value v"
  by (induction cs) (auto split: option.splits dest: cf_bm_match_value)

lemma prime_with_undici_value: "prime_with_undici w req = Inr (Some v) \<Longrightarrow> cf_bm_value v"
  by (auto simp: prime_with_undici_def simp del: scan_cookies.simps
      split: sum.splits set_cookie_header.splits if_splits dest: scan_cookies_value)

lemma prime_with_fetch_value: "prime_with_fetch w req = Inr (Some v) \<Longrightarrow> cf_bm_value v"
  by (auto simp: prime_with_fetch_def split: sum.splits option.splits if_splits
      dest: scan_cookies_value)

lemma fetchCfBmCookie_hit:
  "cache_hit st now \<Longrightarrow> fetchCfBmCookie w now k st = (Returned (cfBmCookie st), st, [])"
  by (simp add: fetchCfBmCookie_def cache_hit_def)

lemma fetchCfBmCookie_miss:
  assumes "\<not> cache_hit st now"
  shows "fetchCfBmCookie w now k st =
     (case prime_with_undici w (priming_request k) of
        Inr (Some v) \<Rightarrow> store_cookie v now [Undici]
      | Inr None \<Rightarrow> (Returned None, st, [Undici])
      | Inl e \<Rightarrow>
          if \<not> str_includes (err_message e) (lit ''Timeout'') then
            (case prime_with_fetch w (priming_request k) of
               Inr (Some v) \<Rightarrow> store_cookie v now [Undici, FetchApi]
             | Inr None \<Rightarrow> (Returned None, st, [Undici, FetchApi])
             | Inl e2 \<Rightarrow> (Returned None, st, [Undici, FetchApi]))
          else (Returned None, st, [Undici]))"
  unfolding fetchCfBmCookie_def priming_request_def Let_def
  using assms [unfolded cache_hit_def] by (rule if_not_P)

lemma store_cookie_eq:
  "store_cookie v now a = (Returned (Some (lit ''__cf_bm='' @ v)), stored v now, a)"
  by (simp add: store_cookie_def stored_def Let_def)

lemma fetchCfBmCookie_outcomes:
  assumes "fetchCfBmCookie w now k st = (r, st', a)"
  shows "(cache_hit st now \<and> r = Returned (cfBmCookie st) \<and> st' = st \<and> a = [])
       \<or> (\<not> cache_hit st now \<and> r = Returned None \<and> st' = st \<and> a \<noteq> [] \<and> hd a = Undici)
       \<or> (\<exists>v. \<not> cache_hit st now \<and> cf_bm_value v
              \<and> (prime_with_undici w (priming_request k) = Inr (Some v)
                   \<or> prime_with_fetch w (priming_request k) = Inr (Some v))
              \<and> r = Returned (Some (lit ''__cf_bm='' @ v)) \<and> st' = stored v now
              \<and> a \<noteq> [] \<and> hd a = Undici)"
proof (cases "cache_hit st now")
  case True
  with assms show ?thesis by (auto simp: fetchCfBmCookie_hit)
next
  case False
  with assms show ?thesis
    unfolding fetchCfBmCookie_miss [OF False] store_cookie_eq
    by (auto split: sum.splits option.splits if_splits
        dest: prime_with_undici_value prime_with_fetch_value)
qed

lemma stored_hit: "cf_bm_value v \<Longrightarrow> cache_hit (stored v t0) t \<longleftrightarrow> t < t0 + CF_BM_COOKIE_CACHE_TTL_MS"
  by (simp add: cache_hit_def stored_def lit_def)

lemma miss_result_independent:
  "\<not> cache_hit st now \<Longrightarrow> \<not> cache_hit st2 now \<Longrightarrow>
   fst (fetchCfBmCookie w now k st) = fst (fetchCfBmCookie w now k st2)
   \<and> snd (snd (fetchCfBmCookie w now k st)) = snd (snd (fetchCfBmCookie w now k st2))"
  by (simp add: fetchCfBmCookie_miss store_cookie_eq split: sum.splits option.splits)

lemma initial_not_hit: "\<not> cache_hit initial_cache now"
  by (simp add: cache_hit_def initial_cache_def)

section \<open>Facts about the request dispatcher\<close>

lemma try_methods_Cons:
  "try_methods ((t, m) # rest) lastError =
     (case m () of
        Returned d \<Rightarrow> (Finished (Returned d), [t])
      | Threw e \<Rightarrow>
          if genuine_http_error e then (Finished (Threw e), [t])
          else (case try_methods rest (Some e) of (exit, called) \<Rightarrow> (exit, t # called)))"
  by (simp add: genuine_http_error_def Let_def split: completion.splits)

lemma try_three:
  "try_methods [(FetchApi, \<lambda>_. o1), (Undici, \<lambda>_. o2), (Axios, \<lambda>_. o3)] None =
     (case o1 of
        Returned d \<Rightarrow> (Finished (Returned d), [FetchApi])
      | Threw e1 \<Rightarrow>
          if genuine_http_error e1 then (Finished (Threw e1), [FetchApi])
          else
            (case o2 of
               Returned d \<Rightarrow> (Finished (Returned d), [FetchApi, Undici])
             | Threw e2 \<Rightarrow>
                 if genuine_http_error e2 then (Finished (Threw e2), [FetchApi, Undici])
                 else
                   (case o3 of
                      Returned d \<Rightarrow> (Finished (Returned d), [FetchApi, Undici, Axios])
                    | Threw e3 \<Rightarrow>
                        if genuine_http_error e3
                        then (Finished (Threw e3), [FetchApi, Undici, Axios])
                        else (Exhausted (Some e3), [FetchApi, Undici, Axios]))))"
  unfolding try_methods_Cons try_methods.simps(1)
  by (simp split: completion.splits)

lemma fetchUsage_unfold:
  assumes "encodeURIComponent w org = Inr enc"
    and "fetchCfBmCookie w now k st = (Returned cf, st', primed)"
  shows "fetchUsage w now org k st =
     (case try_methods [(FetchApi, \<lambda>_. run_strategy FetchApi w (usage_request enc k cf)),
                        (Undici, \<lambda>_. run_strategy Undici w (usage_request enc k cf)),
                        (Axios, \<lambda>_. run_strategy Axios w (usage_request enc k cf))] None of
        (Finished c, called) \<Rightarrow> (c, st', called)
      | (Exhausted lastError, called) \<Rightarrow> (Threw (exhausted_error lastError), st', called))"
  using assms by (simp add: fetchUsage_def usage_request_def Let_def split: option.splits)

text \<open>The seven ways through \<open>fetchUsage\<close> once the URL is built and the cookie acquired.\<close>

lemma fetchUsage_paths:
  assumes "encodeURIComponent w org = Inr enc"
    and "fetchCfBmCookie w now k st = (Returned cf, st', primed)"
    and "fetchUsage w now org k st = (r, st2, called)"
  defines "req \<equiv> usage_request enc k cf"
  shows "st2 = st' \<and>
     ((\<exists>d. run_strategy FetchApi w req = Returned d \<and> r = Returned d \<and> called = [FetchApi])
    \<or> (\<exists>e1. run_strategy FetchApi w req = Threw e1 \<and> genuine_http_error e1
           \<and> r = Threw e1 \<and> called = [FetchApi])
    \<or> (\<exists>e1 d. run_strategy FetchApi w req = Threw e1 \<and> \<not> genuine_http_error e1
           \<and> run_strategy Undici w req = Returned d \<and> r = Returned d
           \<and> called = [FetchApi, Undici])
    \<or> (\<exists>e1 e2. run_strategy FetchApi w req = Threw e1 \<and> \<not> genuine_http_error e1
           \<and> run_strategy Undici w req = Threw e2 \<and> genuine_http_error e2
           \<and> r = Threw e2 \<and> called = [FetchApi, Undici])
    \<or> (\<exists>e1 e2 d. run_strategy FetchApi w req = Threw e1 \<and> \<not> genuine_http_error e1
           \<and> run_strategy Undici w req = Threw e2 \<and> \<not> genuine_http_error e2
           \<and> run_strategy Axios w req = Returned d \<and> r = Returned d
           \<and> called = [FetchApi, Undici, Axios])
    \<or> (\<exists>e1 e2 e3. run_strategy FetchApi w req = Threw e1 \<and> \<not> genuine_http_error e1
           \<and> run_strategy Undici w req = Threw e2 \<and> \<not> genuine_http_error e2
           \<and> run_strategy Axios w req = Threw e3 \<and> genuine_http_error e3
           \<and> r = Threw e3 \<and> called = [FetchApi, Undici, Axios])
    \<or> (\<exists>e1 e2 e3. run_strategy FetchApi w req = Threw e1 \<and> \<not> genuine_http_error e1
           \<and> run_strategy Undici w req = Threw e2 \<and> \<not> genuine_http_error e2
           \<and> run_strategy Axios w req = Threw e3 \<and> \<not> genuine_http_error e3
           \<and> r = Threw (exhausted_error (Some e3)) \<and> called = [FetchApi, Undici, Axios]))"
proof -
  note u = fetchUsage_unfold [OF assms(1,2), folded req_def]
  show ?thesis
  proof (cases "run_strategy FetchApi w req")
    case (Returned d)
    then have "fetchUsage w now org k st = (Returned d, st', [FetchApi])"
      unfolding u try_three by simp
    with assms(3) have "r = Returned d" "st2 = st'" "called = [FetchApi]" by simp_all
    with Returned show ?thesis by blast
  next
    case e1: (Threw e1)
    show ?thesis
    proof (cases "genuine_http_error e1")
      case True
      with e1 have "fetchUsage w now org k st = (Threw e1, st', [FetchApi])"
        unfolding u try_three by simp
      with assms(3) have "r = Threw e1" "st2 = st'" "called = [FetchApi]" by simp_all
      with e1 True show ?thesis by blast
    next
      case g1: False
      show ?thesis
      proof (cases "run_strategy Undici w req")
        case (Returned d)
        with e1 g1 have "fetchUsage w now org k st = (Returned d, st', [FetchApi, Undici])"
          unfolding u try_three by simp
        with assms(3) have "r = Returned d" "st2 = st'" "called = [FetchApi, Undici]" by simp_all
        with e1 g1 Returned show ?thesis by blast
      next
        case e2: (Threw e2)
        show ?thesis
        proof (cases "genuine_http_error e2")
          case True
          with e1 g1 e2 have "fetchUsage w now org k st = (Threw e2, st', [FetchApi, Undici])"
            unfolding u try_three by simp
          with assms(3) have "r = Threw e2" "st2 = st'" "called = [FetchApi, Undici]" by simp_all
          with e1 g1 e2 True show ?thesis by blast
        next
          case g2: False
          show ?thesis
          proof (cases "run_strategy Axios w req")
            case (Returned d)
            with e1 g1 e2 g2
            have "fetchUsage w now org k st = (Returned d, st', [FetchApi, Undici, Axios])"
              unfolding u try_three by simp
            with assms(3) have "r = Returned d" "st2 = st'" "called = [FetchApi, Undici, Axios]"
              by simp_all
            with e1 g1 e2 g2 Returned show ?thesis by blast
          next
            case e3: (Threw e3)
            show ?thesis
            proof (cases "genuine_http_error e3")
              case True
              with e1 g1 e2 g2 e3
              have "fetchUsage w now org k st = (Threw e3, st', [FetchApi, Undici, Axios])"
                unfolding u try_three by simp
              with assms(3) have "r = Threw e3" "st2 = st'" "called = [FetchApi, Undici, Axios]"
                by simp_all
              with e1 g1 e2 g2 e3 True show ?thesis by blast
            next
              case g3: False
              with e1 g1 e2 g2 e3
              have "fetchUsage w now org k st
                  = (Threw (exhausted_error (Some e3)), st', [FetchApi, Undici, Axios])"
                unfolding u try_three by simp
              with assms(3) have "r = Threw (exhausted_error (Some e3))" "st2 = st'"
                "called = [FetchApi, Undici, Axios]"
                by simp_all
              with e1 g1 e2 g2 e3 g3 show ?thesis by blast
            qed
          qed
        qed
      qed
    qed
  qed
qed

lemma run_strategy_Returned_iff:
  "run_strategy t w req = Returned d \<longleftrightarrow> success_2xx t w req d"
proof (cases t)
  case FetchApi
  then show ?thesis
    by (auto simp: method1_def split: sum.splits if_splits)
next
  case Undici
  then show ?thesis
    by (auto simp: method2_def split: sum.splits if_splits)
next
  case Axios
  then show ?thesis
    by (auto simp: method3_def Let_def split: sum.splits if_splits)
qed

lemma bot_challenge_not_Nil: "bot_challenge m \<Longrightarrow> m \<noteq> []"
  by (auto simp: bot_challenge_def lit_def)

lemma bot_challenge_loop_errorMsg:
  "bot_challenge (err_message e) \<Longrightarrow> loop_errorMsg e = err_message e"
  by (auto simp: loop_errorMsg_def dest: bot_challenge_not_Nil)

lemma bot_challenge_not_genuine: "bot_challenge (loop_errorMsg e) \<Longrightarrow> \<not> genuine_http_error e"
  by (simp add: genuine_http_error_def)

lemma show_nat_404: "show_nat 404 = lit ''404''"
  by (simp add: show_nat.simps lit_def)

lemma new_Error_genuine:
  assumes "str_includes m (lit ''HTTP'')" and "\<not> bot_challenge m"
  shows "genuine_http_error (new_Error m)"
proof -
  from assms(1) have "m \<noteq> []" by (auto simp: lit_def)
  then have "loop_errorMsg (new_Error m) = m" by (simp add: loop_errorMsg_def new_Error_def)
  with assms show ?thesis by (simp add: genuine_http_error_def)
qed

lemma method1_404:
  assumes "fetch_api w req = Inr resp" and "f_status resp = 404" and "f_text resp = Inr body"
  shows "method1 w req = Threw (new_Error (lit ''HTTP 404: '' @ take 200 body))"
proof -
  have e: "lit ''HTTP '' @ show_nat 404 @ lit '': '' @ take 200 body = lit ''HTTP 404: '' @ take 200 body"
    by (simp add: show_nat_404 lit_def)
  from assms
  have "method1 w req = Threw (new_Error (lit ''HTTP '' @ show_nat 404 @ lit '': '' @ take 200 body))"
    by (simp add: method1_def substring0_def ERROR_MESSAGE_MAX_LENGTH_def)
  then show ?thesis by (simp only: e)
qed

section \<open>Facts about the final error and the caller-facing layer\<close>

lemma err_message_new_Error: "err_message (new_Error m) = m"
  by (simp add: new_Error_def)

lemma exhausted_error_bot:
  assumes "bot_challenge (err_message e)"
  shows "exhausted_error (Some e) = new_Error (err_message e @ cloudflare_remediation)"
proof -
  from assms have "err_message e \<noteq> []" by (rule bot_challenge_not_Nil)
  then have "final_errorMsg (Some e) = err_message e" by (simp add: final_errorMsg_def)
  with assms show ?thesis by (simp add: exhausted_error_def Let_def)
qed

lemma exhausted_error_eq:
  "exhausted_error lastError =
     new_Error (final_errorMsg lastError
                @ (if bot_challenge (final_errorMsg lastError) then cloudflare_remediation
                   else take 500 (final_errorMsg lastError)))"
  by (simp add: exhausted_error_def Let_def substring0_def ERROR_DETAILS_MAX_LENGTH_def)


lemma show_error_eq:
  "show_error e = Failure (safeErrorMessage e) (str_includes (safeErrorMessage e) (lit ''403''))"
  by (simp add: show_error_def Let_def)

lemma refreshAndRender_configured:
  assumes "trim organizationCode \<noteq> []" and "trim s \<noteq> []"
  shows "refreshAndRender w now organizationCode (Some s) mode st =
     (case fetchUsage w now (trim organizationCode) (trim s) st of
        (Returned data, st', called) \<Rightarrow>
          let five = opt_get_prop data (lit ''five_hour'')
          in if \<not> truthy five \<or> \<not> is_number (get_prop five (lit ''utilization''))
                \<or> \<not> truthy (get_prop five (lit ''resets_at''))
             then (UnexpectedShape, st')
             else
               (case get_prop five (lit ''utilization'') of
                  JNum utilization \<Rightarrow>
                    (case formatLocal w (get_prop five (lit ''resets_at'')) of
                       Threw e \<Rightarrow> (show_error e, st')
                     | Returned resetsLocal \<Rightarrow>
                         (Usage (if mode = lit ''left''
                                 then PercentLeft (clampPercent (js_minus (Finite 100) (clampPercent utilization)))
                                 else PercentUsed (clampPercent utilization))
                            resetsLocal, st'))
                | _ \<Rightarrow> (UnexpectedShape, st'))
      | (Threw e, st', called) \<Rightarrow> (show_error e, st'))"
  using assms
  by (simp add: refreshAndRender_def Let_def split: prod.splits completion.splits jsval.splits)


lemma str_includes_prefixI: "str_includes (p @ b) p"
proof -
  have "p @ b = [] @ p @ b" by simp
  then show ?thesis unfolding str_includes_iff by blast
qed

lemma str_includes_refl: "str_includes p p"
  using str_includes_prefixI [of p "[]"] by simp

lemma str_includes_append_right: "str_includes b p \<Longrightarrow> str_includes (a @ b) p"
proof -
  assume "str_includes b p"
  then obtain x y where "b = x @ p @ y" unfolding str_includes_iff by blast
  then have "a @ b = (a @ x) @ p @ y" by simp
  then show ?thesis unfolding str_includes_iff by blast
qed

text \<open>The lines of the remediation text, and its length in code units.\<close>

lemma remediation_lines:
  "str_includes cloudflare_remediation ([0x26A0, 0xFE0F] @ lit '' Cloudflare bot protection detected.'')"
  "str_includes cloudflare_remediation
     (lit ''This is a known limitation - Cloudflare blocks automated requests based on TLS fingerprinting.'')"
  "str_includes cloudflare_remediation
     (lit ''Postman works because it uses a different HTTP client (libcurl) that Cloudflare trusts.'')"
  "str_includes cloudflare_remediation (lit ''Possible solutions:'')"
  "str_includes cloudflare_remediation
     (lit ''1. Use a fresh Cookie header from Postman (__cf_bm cookie expires quickly)'')"
  "str_includes cloudflare_remediation
     (lit ''2. Use a proxy service that can handle Cloudflare challenges'')"
  "str_includes cloudflare_remediation
     (lit ''3. Contact Claude.ai to request API access or whitelisting'')"
  unfolding cloudflare_remediation_def append_assoc [symmetric, of "[0x26A0, 0xFE0F]"]
  by ((rule str_includes_prefixI | rule str_includes_refl | rule str_includes_append_right)+)

lemma length_lit: "length (lit s) = length s"
  by (simp add: lit_def)

lemma length_remediation: "length cloudflare_remediation = 440"
  by (simp add: cloudflare_remediation_def nl_def length_lit)

lemma holds_remediation_block_append:
  "holds_remediation_block (m @ cloudflare_remediation)"
  unfolding holds_remediation_block_def
  by (intro conjI str_includes_append_right remediation_lines)

section \<open>Evaluating the example environments\<close>

lemma example_world_simps:
  "fetch_api (example_world f u a l) req = f"
  "fetch_latency_ms (example_world f u a l) req = l"
  "undici_request (example_world f u a l) req = u"
  "undici_latency_ms (example_world f u a l) req = l"
  "axios_get (example_world f u a l) req = a"
  "encodeURIComponent (example_world f u a l) s = Inr s"
  "JSON_stringify (example_world f u a l) v = lit ''{}''"
  "Date_getTime (example_world f u a l) v = example_Date v"
  by (simp_all add: example_world_def)

lemmas env_defs =
  env_offline_def env_cookie_def env_third_succeeds_def env_not_found_def env_challenged_def
  env_echo_def env_infinite_def env_connect_timeout_def env_etimedout_def env_bad_date_def

lemmas example_eval =
  env_defs example_world_simps fetch_answers_def undici_answers_def axios_answers_def
  network_down_def not_json_def connect_timeout_def connect_etimedout_def REQUEST_TIMEOUT_MS_def

lemmas priming_eval =
  prime_with_undici_def prime_with_fetch_def race_timeout_def abort_after_timeout_def
  store_cookie_eq new_Error_def

lemmas method_eval =
  method1_def method2_def method3_def substring0_def ERROR_MESSAGE_MAX_LENGTH_def
  show_nat.simps

lemmas text_eval =
  genuine_http_error_def bot_challenge_def loop_errorMsg_def error_toString_def
  err_message_new_Error lit_def

lemma encode_examples:
  "encodeURIComponent (env_offline l) s = Inr s"
  "encodeURIComponent env_third_succeeds s = Inr s"
  "encodeURIComponent env_not_found s = Inr s"
  "encodeURIComponent env_challenged s = Inr s"
  "encodeURIComponent env_echo s = Inr s"
  "encodeURIComponent env_infinite s = Inr s"
  "encodeURIComponent env_bad_date s = Inr s"
  by (simp_all add: example_eval)

lemma priming_examples:
  "fetchCfBmCookie (env_offline 30) now k initial_cache = (Returned None, initial_cache, [Undici, FetchApi])"
  "fetchCfBmCookie (env_offline 10000) now k initial_cache = (Returned None, initial_cache, [Undici])"
  "fetchCfBmCookie env_cookie now k initial_cache
     = (Returned (Some (lit ''__cf_bm=abc123'')), stored (lit ''abc123'') now, [Undici])"
  "fetchCfBmCookie env_third_succeeds now k initial_cache = (Returned None, initial_cache, [Undici])"
  "fetchCfBmCookie env_not_found now k initial_cache = (Returned None, initial_cache, [Undici, FetchApi])"
  "fetchCfBmCookie env_challenged now k initial_cache = (Returned None, initial_cache, [Undici])"
  "fetchCfBmCookie env_echo now k initial_cache = (Returned None, initial_cache, [Undici])"
  "fetchCfBmCookie env_infinite now k initial_cache = (Returned None, initial_cache, [Undici, FetchApi])"
  "fetchCfBmCookie env_bad_date now k initial_cache = (Returned None, initial_cache, [Undici, FetchApi])"
  "fetchCfBmCookie env_connect_timeout now k initial_cache = (Returned None, initial_cache, [Undici])"
  "fetchCfBmCookie env_etimedout now k initial_cache = (Returned None, initial_cache, [Undici, FetchApi])"
  by (simp_all add: fetchCfBmCookie_miss [OF initial_not_hit] example_eval priming_eval lit_def)

lemma method_examples:
  "run_strategy FetchApi (env_offline l) req = Threw network_down"
  "run_strategy Undici (env_offline l) req = Threw network_down"
  "run_strategy Axios (env_offline l) req = Threw network_down"
  "run_strategy FetchApi env_third_succeeds req = Threw (new_Error (lit ''HTTP 403: Just a moment...''))"
  "run_strategy Undici env_third_succeeds req = Threw (new_Error (lit ''HTTP 403: {}''))"
  "run_strategy Axios env_third_succeeds req = Returned example_usage"
  "run_strategy FetchApi env_not_found req = Threw (new_Error (lit ''HTTP 404: Not Found''))"
  "run_strategy FetchApi env_challenged req = Threw (new_Error (lit ''HTTP 403: Just a moment...''))"
  "run_strategy Undici env_challenged req = Threw (new_Error (lit ''HTTP 403: {}''))"
  "run_strategy Axios env_challenged req = Threw (new_Error (lit ''HTTP 403: Just a moment...''))"
  "run_strategy FetchApi env_echo req = Threw (new_Error (lit ''HTTP 403: Just a moment...''))"
  "run_strategy Undici env_echo req = Threw (new_Error (lit ''HTTP 403: {}''))"
  "run_strategy Axios env_echo req
     = Threw (new_Error (lit ''HTTP 403: bad cookie sessionKey=sk-test-token''))"
  "run_strategy FetchApi env_infinite req = Returned (usage_body (JNum PosInf) (JStr (lit ''soon'')))"
  "run_strategy FetchApi env_bad_date req
     = Returned (usage_body (JNum (Finite 42)) (JObj [(lit ''toString'', JNum (Finite 0))]))"
  by (simp_all add: example_eval method_eval lit_def)

lemma text_examples:
  "\<not> genuine_http_error network_down"
  "\<not> str_includes (err_message network_down) (lit ''Timeout'')"
  "\<not> genuine_http_error (new_Error (lit ''HTTP 403: Just a moment...''))"
  "\<not> genuine_http_error (new_Error (lit ''HTTP 403: {}''))"
  "\<not> genuine_http_error (new_Error (lit ''HTTP 403: bad cookie sessionKey=sk-test-token''))"
  "genuine_http_error (new_Error (lit ''HTTP 404: Not Found''))"
  "bot_challenge (lit ''HTTP 403: Just a moment...'')"
  "bot_challenge (lit ''HTTP 403: {}'')"
  "bot_challenge (lit ''HTTP 403: bad cookie sessionKey=sk-test-token'')"
  "\<not> bot_challenge (lit ''fetch failed'')"
  "str_includes (err_message connect_timeout) (lit ''Timeout'')"
  "\<not> str_includes (err_message connect_etimedout) (lit ''Timeout'')"
  by (simp_all add: text_eval network_down_def connect_timeout_def connect_etimedout_def)

lemma fetchUsage_eval:
  assumes "encodeURIComponent w org = Inr enc"
    and "fetchCfBmCookie w now k st = (Returned cf, st', primed)"
    and "run_strategy FetchApi w (usage_request enc k cf) = o1"
    and "run_strategy Undici w (usage_request enc k cf) = o2"
    and "run_strategy Axios w (usage_request enc k cf) = o3"
  shows "fetchUsage w now org k st =
     (case try_methods [(FetchApi, \<lambda>_. o1), (Undici, \<lambda>_. o2), (Axios, \<lambda>_. o3)] None of
        (Finished c, called) \<Rightarrow> (c, st', called)
      | (Exhausted lastError, called) \<Rightarrow> (Threw (exhausted_error lastError), st', called))"
  unfolding fetchUsage_unfold [OF assms(1,2)] assms(3-5) ..

lemma fetchUsage_eval_first:
  assumes "encodeURIComponent w org = Inr enc"
    and "fetchCfBmCookie w now k st = (Returned cf, st', primed)"
    and "run_strategy FetchApi w (usage_request enc k cf) = o1"
    and "o1 = Returned d \<or> (\<exists>e. o1 = Threw e \<and> genuine_http_error e)"
  shows "fetchUsage w now org k st = (o1, st', [FetchApi])"
  unfolding fetchUsage_unfold [OF assms(1,2)] assms(3) try_methods_Cons
  using assms(4) by auto

lemma fetchUsage_examples:
  "fetchUsage (env_offline 30) now org k initial_cache
     = (Threw (new_Error (lit ''fetch failedfetch failed'')), initial_cache, [FetchApi, Undici, Axios])"
  "fetchUsage env_third_succeeds now org k initial_cache
     = (Returned example_usage, initial_cache, [FetchApi, Undici, Axios])"
  "fetchUsage env_challenged now org k initial_cache
     = (Threw (new_Error (lit ''HTTP 403: Just a moment...'' @ cloudflare_remediation)),
        initial_cache, [FetchApi, Undici, Axios])"
  "fetchUsage env_echo now org k initial_cache
     = (Threw (new_Error (lit ''HTTP 403: bad cookie sessionKey=sk-test-token'' @ cloudflare_remediation)),
        initial_cache, [FetchApi, Undici, Axios])"
proof -
  show "fetchUsage (env_offline 30) now org k initial_cache
     = (Threw (new_Error (lit ''fetch failedfetch failed'')), initial_cache, [FetchApi, Undici, Axios])"
  proof -
    have m: "final_errorMsg (Some network_down) = lit ''fetch failed''"
      by (simp add: final_errorMsg_def network_down_def lit_def)
    have e: "exhausted_error (Some network_down) = new_Error (lit ''fetch failedfetch failed'')"
      unfolding exhausted_error_eq m using text_examples(10) by (simp add: lit_def)
    show ?thesis
      unfolding fetchUsage_eval [OF encode_examples(1) priming_examples(1) method_examples(1,2,3)]
        try_three
      by (simp add: text_examples e)
  qed
  show "fetchUsage env_third_succeeds now org k initial_cache
     = (Returned example_usage, initial_cache, [FetchApi, Undici, Axios])"
    unfolding fetchUsage_eval [OF encode_examples(2) priming_examples(4) method_examples(4,5,6)]
      try_three
    by (simp add: text_examples)
  show "fetchUsage env_challenged now org k initial_cache
     = (Threw (new_Error (lit ''HTTP 403: Just a moment...'' @ cloudflare_remediation)),
        initial_cache, [FetchApi, Undici, Axios])"
    unfolding fetchUsage_eval [OF encode_examples(4) priming_examples(6) method_examples(8,9,10)]
      try_three
    by (simp add: text_examples exhausted_error_bot err_message_new_Error)
  show "fetchUsage env_echo now org k initial_cache
     = (Threw (new_Error (lit ''HTTP 403: bad cookie sessionKey=sk-test-token'' @ cloudflare_remediation)),
        initial_cache, [FetchApi, Undici, Axios])"
    unfolding fetchUsage_eval [OF encode_examples(5) priming_examples(7) method_examples(11,12,13)]
      try_three
    by (simp add: text_examples exhausted_error_bot err_message_new_Error)
qed

lemma fetchUsage_examples_first:
  "fetchUsage env_not_found now org k initial_cache
     = (Threw (new_Error (lit ''HTTP 404: Not Found'')), initial_cache, [FetchApi])"
  "fetchUsage env_infinite now org k initial_cache
     = (Returned (usage_body (JNum PosInf) (JStr (lit ''soon''))), initial_cache, [FetchApi])"
  "fetchUsage env_bad_date now org k initial_cache
     = (Returned (usage_body (JNum (Finite 42)) (JObj [(lit ''toString'', JNum (Finite 0))])),
        initial_cache, [FetchApi])"
proof -
  show "fetchUsage env_not_found now org k initial_cache
     = (Threw (new_Error (lit ''HTTP 404: Not Found'')), initial_cache, [FetchApi])"
    by (rule fetchUsage_eval_first [OF encode_examples(3) priming_examples(5) method_examples(7)])
      (simp add: text_examples)
  show "fetchUsage env_infinite now org k initial_cache
     = (Returned (usage_body (JNum PosInf) (JStr (lit ''soon''))), initial_cache, [FetchApi])"
    by (rule fetchUsage_eval_first [OF encode_examples(6) priming_examples(8) method_examples(14)])
      simp  show "fetchUsage env_bad_date now org k initial_cache
     = (Returned (usage_body (JNum (Finite 42)) (JObj [(lit ''toString'', JNum (Finite 0))])),
        initial_cache, [FetchApi])"
    by (rule fetchUsage_eval_first [OF encode_examples(7) priming_examples(9) method_examples(15)])
      simp
qed

lemma trim_examples:
  "trim (lit ''abc123'') = lit ''abc123''"
  "trim (lit ''sk-test-token'') = lit ''sk-test-token''"
  "lit ''abc123'' \<noteq> []"
  "lit ''sk-test-token'' \<noteq> []"
  by (simp_all add: trim_def lit_def isWhiteSpace_def)


section \<open>Claims about the credential formatter\<close>

text \<open>
  C4. For every input string, \<open>formatSessionKeyCookie\<close> trims it; when the trimmed string
  holds no \<open>;\<close> (code unit 0x3B) and at most one \<open>=\<close> (code unit 0x3D) the result is
  \<open>sessionKey=\<close> followed by the trimmed string, otherwise it is the trimmed string
  itself. The function is a total HOL function of its argument alone, and its result is
  non-empty whenever the trimmed input is.
\<close>

theorem formatSessionKeyCookie_contract:
  "formatSessionKeyCookie s =
     (if 0x3B \<notin> set (trim s) \<and> count_list (trim s) 0x3D \<le> 1
      then lit ''sessionKey='' @ trim s else trim s)
   \<and> (trim s \<noteq> [] \<longrightarrow> formatSessionKeyCookie s \<noteq> [])"
  by (simp add: formatSessionKeyCookie_cases)

theorem formatSessionKeyCookie_contract_witness:
  "formatSessionKeyCookie (lit '' sk-test-token '') = lit ''sessionKey=sk-test-token''
   \<and> trim (lit '' sk-test-token '') \<noteq> []
   \<and> formatSessionKeyCookie (lit '' sk-test-token '') \<noteq> []"
  using formatSessionKeyCookie_contract [of "lit '' sk-test-token ''"]
  by (simp add: lit_def trim_def isWhiteSpace_def)

text \<open>
  C3, as stated (idempotent on every input), fails on a bare token: the first application
  wraps \<open>abc\<close> as \<open>sessionKey=abc\<close>, which still holds no \<open>;\<close> and only one \<open>=\<close>, so
  the second application wraps it again.
\<close>

theorem formatSessionKeyCookie_idempotent_counterexample:
  "formatSessionKeyCookie (formatSessionKeyCookie (lit ''abc'')) = lit ''sessionKey=sessionKey=abc''
   \<and> formatSessionKeyCookie (lit ''abc'') = lit ''sessionKey=abc''
   \<and> formatSessionKeyCookie (formatSessionKeyCookie (lit ''abc'')) \<noteq> formatSessionKeyCookie (lit ''abc'')"
  by (simp add: formatSessionKeyCookie_cases lit_def trim_def isWhiteSpace_def)

text \<open>
  C3, amended. A second application of \<open>formatSessionKeyCookie\<close> changes nothing exactly
  when the trimmed input holds a \<open>;\<close> or at least one \<open>=\<close>; on a trimmed input with
  neither, the second application prepends \<open>sessionKey=\<close> once more.
\<close>

theorem formatSessionKeyCookie_idempotent_iff:
  "formatSessionKeyCookie (formatSessionKeyCookie s) = formatSessionKeyCookie s
   \<longleftrightarrow> 0x3B \<in> set (trim s) \<or> 0x3D \<in> set (trim s)"
proof -
  let ?t = "trim s"
  let ?w = "lit ''sessionKey='' @ ?t"
  have tt: "trim ?t = ?t" by (rule trim_idem)
  have tw: "trim ?w = ?w"
    by (rule trim_fixed) (rule sessionKey_prefix_trimmed_form, rule trim_trimmed_form)
  show ?thesis
  proof (cases "0x3B \<notin> set ?t \<and> count_list ?t 0x3D \<le> 1")
    case False
    then have "formatSessionKeyCookie s = ?t"
      unfolding formatSessionKeyCookie_cases [of s] by (rule if_not_P)
    moreover from False have "formatSessionKeyCookie ?t = ?t"
      unfolding formatSessionKeyCookie_cases [of ?t] tt by (rule if_not_P)
    moreover from False have "0x3B \<in> set ?t \<or> 0x3D \<in> set ?t"
      using count_list_0_iff [of ?t "0x3D"] by auto
    ultimately show ?thesis by simp
  next
    case True
    then have f: "formatSessionKeyCookie s = ?w" by (simp add: formatSessionKeyCookie_cases)
    have c: "count_list ?w 0x3D = Suc (count_list ?t 0x3D)"
      by (rule sessionKey_prefix_counts)
    have m: "(0x3B \<in> set ?w) = (0x3B \<in> set ?t)"
      by (rule sessionKey_prefix_counts)
    have ff: "formatSessionKeyCookie ?w =
        (if count_list ?t 0x3D = 0 then lit ''sessionKey='' @ ?w else ?w)"
      unfolding formatSessionKeyCookie_cases [of ?w] tw c m using True by simp
    have ne: "lit ''sessionKey='' @ ?w \<noteq> ?w" by (simp add: lit_def)
    have "formatSessionKeyCookie ?w = ?w \<longleftrightarrow> count_list ?t 0x3D \<noteq> 0"
      unfolding ff using ne by (simp only: split: if_split) simp
    then show ?thesis using True unfolding f count_list_0_iff by simp
  qed
qed

theorem formatSessionKeyCookie_idempotent_iff_witness:
  "formatSessionKeyCookie (formatSessionKeyCookie (lit ''a=b'')) = formatSessionKeyCookie (lit ''a=b'')
   \<and> 0x3D \<in> set (trim (lit ''a=b''))"
  using formatSessionKeyCookie_idempotent_iff [of "lit ''a=b''"]
  by (simp add: lit_def trim_def isWhiteSpace_def)

section \<open>Claims about the cookie cache and the cookie acquirer\<close>

text \<open>
  C5. Let a call of \<open>fetchCfBmCookie\<close> that read the clock as \<open>t0\<close> go to the network
  and return a cookie \<open>c\<close>, leaving the cache \<open>st1\<close> (so the value was stored with the
  expiry \<open>t0\<close> plus 5 minutes). Then a later call on \<open>st1\<close> at any time \<open>t\<close> before
  \<open>t0 + 5 * 60 * 1000\<close> returns \<open>c\<close> without a request and leaves the cache as it is,
  whatever the environment and the credential; a call at \<open>t\<close> from \<open>t0 + 5 * 60 * 1000\<close> on
  sends the priming request (undici first) and returns what the same call on the empty
  initial cache returns, never the stale value as such. For any cache, a call that sends no
  request returns the cached value and has \<open>t\<close> below the expiry.
\<close>

theorem cookie_cache_ttl:
  assumes "fetchCfBmCookie w0 t0 k0 st0 = (Returned (Some c), st1, a0)" and "a0 \<noteq> []"
  shows "(t < t0 + 5 * 60 * 1000 \<longrightarrow> fetchCfBmCookie w t k st1 = (Returned (Some c), st1, []))
       \<and> (t0 + 5 * 60 * 1000 \<le> t \<longrightarrow>
            fst (fetchCfBmCookie w t k st1) = fst (fetchCfBmCookie w t k initial_cache)
          \<and> snd (snd (fetchCfBmCookie w t k st1)) = snd (snd (fetchCfBmCookie w t k initial_cache))
          \<and> hd (snd (snd (fetchCfBmCookie w t k st1))) = Undici)
       \<and> (snd (snd (fetchCfBmCookie w t k st)) = [] \<longrightarrow>
            t < cfBmCookieExpiry st \<and> fst (fetchCfBmCookie w t k st) = Returned (cfBmCookie st))"
proof -
  from fetchCfBmCookie_outcomes [OF assms(1)] assms(2)
  obtain v where v: "cf_bm_value v" and c: "c = lit ''__cf_bm='' @ v" and st1: "st1 = stored v t0"
    by auto
  have ttl: "t0 + CF_BM_COOKIE_CACHE_TTL_MS = t0 + 5 * 60 * 1000"
    by (simp add: CF_BM_COOKIE_CACHE_TTL_MS_def)
  have fresh: "t < t0 + 5 * 60 * 1000 \<longrightarrow> fetchCfBmCookie w t k st1 = (Returned (Some c), st1, [])"
  proof
    assume "t < t0 + 5 * 60 * 1000"
    then have "cache_hit st1 t" using v by (simp only: st1 stored_hit ttl)
    then have "fetchCfBmCookie w t k st1 = (Returned (cfBmCookie st1), st1, [])"
      by (rule fetchCfBmCookie_hit)
    then show "fetchCfBmCookie w t k st1 = (Returned (Some c), st1, [])"
      by (simp add: st1 c stored_def)
  qed
  have stale: "t0 + 5 * 60 * 1000 \<le> t \<longrightarrow>
            fst (fetchCfBmCookie w t k st1) = fst (fetchCfBmCookie w t k initial_cache)
          \<and> snd (snd (fetchCfBmCookie w t k st1)) = snd (snd (fetchCfBmCookie w t k initial_cache))
          \<and> hd (snd (snd (fetchCfBmCookie w t k st1))) = Undici"
  proof
    assume "t0 + 5 * 60 * 1000 \<le> t"
    then have miss: "\<not> cache_hit st1 t" using v by (simp only: st1 stored_hit ttl)
    obtain r s a where f: "fetchCfBmCookie w t k st1 = (r, s, a)" by (cases "fetchCfBmCookie w t k st1")
    from fetchCfBmCookie_outcomes [OF f] miss have "hd a = Undici" by auto
    with f miss_result_independent [OF miss initial_not_hit, of w k]
    show "fst (fetchCfBmCookie w t k st1) = fst (fetchCfBmCookie w t k initial_cache)
          \<and> snd (snd (fetchCfBmCookie w t k st1)) = snd (snd (fetchCfBmCookie w t k initial_cache))
          \<and> hd (snd (snd (fetchCfBmCookie w t k st1))) = Undici" by simp
  qed
  have only: "snd (snd (fetchCfBmCookie w t k st)) = [] \<longrightarrow>
            t < cfBmCookieExpiry st \<and> fst (fetchCfBmCookie w t k st) = Returned (cfBmCookie st)"
  proof
    assume e: "snd (snd (fetchCfBmCookie w t k st)) = []"
    obtain r s a where f: "fetchCfBmCookie w t k st = (r, s, a)" by (cases "fetchCfBmCookie w t k st")
    from fetchCfBmCookie_outcomes [OF f] e f
    show "t < cfBmCookieExpiry st \<and> fst (fetchCfBmCookie w t k st) = Returned (cfBmCookie st)"
      by (auto simp: cache_hit_def)
  qed
  from fresh stale only show ?thesis by blast
qed

theorem cookie_cache_ttl_witness:
  "fetchCfBmCookie env_cookie 1000 (lit ''sk-test-token'') initial_cache
     = (Returned (Some (lit ''__cf_bm=abc123'')), stored (lit ''abc123'') 1000, [Undici])
   \<and> fetchCfBmCookie (env_offline 30) 300999 (lit ''sk-test-token'') (stored (lit ''abc123'') 1000)
     = (Returned (Some (lit ''__cf_bm=abc123'')), stored (lit ''abc123'') 1000, [])
   \<and> fst (fetchCfBmCookie (env_offline 30) 301000 (lit ''sk-test-token'') (stored (lit ''abc123'') 1000))
     = Returned None"
proof -
  note a = priming_examples(3) [of 1000 "lit ''sk-test-token''"]
  have b: "[Undici] \<noteq> []" by simp
  note c = priming_examples(1) [of 301000 "lit ''sk-test-token''"]
  from cookie_cache_ttl [OF a b, of 300999 "env_offline 30" "lit ''sk-test-token''"]
       cookie_cache_ttl [OF a b, of 301000 "env_offline 30" "lit ''sk-test-token''"] a c
  show ?thesis by simp
qed

text \<open>
  C6, as stated, fails on either reading of "timeout" by cause. When undici rejects after
  9 seconds, before the 10 second timer fires, with its \<open>Connect Timeout Error\<close>, the fetch
  request is not sent: a failure other than the timer's is not retried. When undici rejects
  with \<open>connect ETIMEDOUT 104.18.0.1:443\<close>, a timeout of the connection, the fetch request
  is sent. The source tells a timeout by the text \<open>Timeout\<close> in the message alone.
\<close>

theorem fetchCfBmCookie_timeout_counterexample:
  "undici_latency_ms env_connect_timeout (priming_request (lit ''sk-test-token'')) < REQUEST_TIMEOUT_MS
   \<and> undici_request env_connect_timeout (priming_request (lit ''sk-test-token'')) = Inl connect_timeout
   \<and> fetchCfBmCookie env_connect_timeout 1000 (lit ''sk-test-token'') initial_cache
     = (Returned None, initial_cache, [Undici])
   \<and> undici_request env_etimedout (priming_request (lit ''sk-test-token'')) = Inl connect_etimedout
   \<and> fetchCfBmCookie env_etimedout 1000 (lit ''sk-test-token'') initial_cache
     = (Returned None, initial_cache, [Undici, FetchApi])"
proof -
  let ?k = "lit ''sk-test-token''"
  have c: "undici_latency_ms env_connect_timeout (priming_request ?k) < REQUEST_TIMEOUT_MS"
    "undici_request env_connect_timeout (priming_request ?k) = Inl connect_timeout"
    by (simp_all add: env_connect_timeout_def example_world_simps REQUEST_TIMEOUT_MS_def)
  have e: "undici_request env_etimedout (priming_request ?k) = Inl connect_etimedout"
    by (simp add: env_etimedout_def example_world_simps)
  from c e priming_examples(10) [of 1000 ?k] priming_examples(11) [of 1000 ?k]
  show ?thesis by simp
qed

text \<open>
  C6, amended. \<open>fetchCfBmCookie\<close> never throws: on every environment, clock reading,
  credential and cache its completion is a return, of a cookie or of \<open>null\<close>. When the
  cache does not answer, the outcome of the undici request decides the rest. If the request
  has not settled when the 10 second timer fires, or is rejected before that with an error
  whose message holds the text \<open>Timeout\<close>, the call returns \<open>null\<close>, leaves the cache as it
  is and sends no fetch request. If it is rejected before the timer fires with an error whose
  message does not hold \<open>Timeout\<close>, whatever the cause, the fetch request is sent next. If
  it is answered, no fetch request is sent.
\<close>

theorem fetchCfBmCookie_never_throws:
  "(\<exists>r. fst (fetchCfBmCookie w now k st) = Returned r)
   \<and> (\<not> cache_hit st now \<and> REQUEST_TIMEOUT_MS \<le> undici_latency_ms w (priming_request k)
        \<longrightarrow> fetchCfBmCookie w now k st = (Returned None, st, [Undici]))
   \<and> (\<not> cache_hit st now \<and> undici_latency_ms w (priming_request k) < REQUEST_TIMEOUT_MS
        \<and> undici_request w (priming_request k) = Inl e
        \<and> str_includes (err_message e) (lit ''Timeout'')
        \<longrightarrow> fetchCfBmCookie w now k st = (Returned None, st, [Undici]))
   \<and> (\<not> cache_hit st now \<and> undici_latency_ms w (priming_request k) < REQUEST_TIMEOUT_MS
        \<and> undici_request w (priming_request k) = Inl e
        \<and> \<not> str_includes (err_message e) (lit ''Timeout'')
        \<longrightarrow> snd (snd (fetchCfBmCookie w now k st)) = [Undici, FetchApi])
   \<and> (\<not> cache_hit st now \<and> undici_latency_ms w (priming_request k) < REQUEST_TIMEOUT_MS
        \<and> undici_request w (priming_request k) = Inr response
        \<longrightarrow> snd (snd (fetchCfBmCookie w now k st)) = [Undici])"
proof -
  let ?req = "priming_request k"
  obtain r s a where f: "fetchCfBmCookie w now k st = (r, s, a)"
    by (cases "fetchCfBmCookie w now k st")
  from fetchCfBmCookie_outcomes [OF f] have "\<exists>x. r = Returned x" by auto
  with f have total: "\<exists>r. fst (fetchCfBmCookie w now k st) = Returned r" by simp
  have timer: "\<not> cache_hit st now \<and> REQUEST_TIMEOUT_MS \<le> undici_latency_ms w ?req
        \<longrightarrow> fetchCfBmCookie w now k st = (Returned None, st, [Undici])"
  proof
    assume h: "\<not> cache_hit st now \<and> REQUEST_TIMEOUT_MS \<le> undici_latency_ms w ?req"
    then have "prime_with_undici w ?req = Inl (new_Error (lit ''Timeout fetching __cf_bm cookie''))"
      by (simp add: prime_with_undici_def race_timeout_def)
    moreover have "str_includes (err_message (new_Error (lit ''Timeout fetching __cf_bm cookie'')))
        (lit ''Timeout'')"
      by (simp add: new_Error_def lit_def)
    ultimately show "fetchCfBmCookie w now k st = (Returned None, st, [Undici])"
      using h by (simp add: fetchCfBmCookie_miss)
  qed
  have named: "\<not> cache_hit st now \<and> undici_latency_ms w ?req < REQUEST_TIMEOUT_MS
        \<and> undici_request w ?req = Inl e
        \<and> str_includes (err_message e) (lit ''Timeout'')
        \<longrightarrow> fetchCfBmCookie w now k st = (Returned None, st, [Undici])"
  proof
    assume h: "\<not> cache_hit st now \<and> undici_latency_ms w ?req < REQUEST_TIMEOUT_MS
        \<and> undici_request w ?req = Inl e
        \<and> str_includes (err_message e) (lit ''Timeout'')"
    then have "prime_with_undici w ?req = Inl e"
      by (simp add: prime_with_undici_def race_timeout_def)
    with h show "fetchCfBmCookie w now k st = (Returned None, st, [Undici])"
      by (simp add: fetchCfBmCookie_miss)
  qed
  have other: "\<not> cache_hit st now \<and> undici_latency_ms w ?req < REQUEST_TIMEOUT_MS
        \<and> undici_request w ?req = Inl e
        \<and> \<not> str_includes (err_message e) (lit ''Timeout'')
        \<longrightarrow> snd (snd (fetchCfBmCookie w now k st)) = [Undici, FetchApi]"
  proof
    assume h: "\<not> cache_hit st now \<and> undici_latency_ms w ?req < REQUEST_TIMEOUT_MS
        \<and> undici_request w ?req = Inl e
        \<and> \<not> str_includes (err_message e) (lit ''Timeout'')"
    then have "prime_with_undici w ?req = Inl e"
      by (simp add: prime_with_undici_def race_timeout_def)
    with h show "snd (snd (fetchCfBmCookie w now k st)) = [Undici, FetchApi]"
      by (simp add: fetchCfBmCookie_miss store_cookie_eq split: sum.splits option.splits)
  qed
  have answered: "\<not> cache_hit st now \<and> undici_latency_ms w ?req < REQUEST_TIMEOUT_MS
        \<and> undici_request w ?req = Inr response
        \<longrightarrow> snd (snd (fetchCfBmCookie w now k st)) = [Undici]"
  proof
    assume h: "\<not> cache_hit st now \<and> undici_latency_ms w ?req < REQUEST_TIMEOUT_MS
        \<and> undici_request w ?req = Inr response"
    then obtain x where "prime_with_undici w ?req = Inr x"
      by (simp add: prime_with_undici_def race_timeout_def)
    with h show "snd (snd (fetchCfBmCookie w now k st)) = [Undici]"
      by (simp add: fetchCfBmCookie_miss store_cookie_eq split: option.splits)
  qed
  from total timer named other answered show ?thesis by blast
qed

theorem fetchCfBmCookie_never_throws_witness:
  "\<not> cache_hit initial_cache 1000
   \<and> fetchCfBmCookie (env_offline 10000) 1000 (lit ''sk-test-token'') initial_cache
     = (Returned None, initial_cache, [Undici])
   \<and> str_includes (err_message connect_timeout) (lit ''Timeout'')
   \<and> fetchCfBmCookie env_connect_timeout 1000 (lit ''sk-test-token'') initial_cache
     = (Returned None, initial_cache, [Undici])
   \<and> \<not> str_includes (err_message network_down) (lit ''Timeout'')
   \<and> snd (snd (fetchCfBmCookie (env_offline 30) 1000 (lit ''sk-test-token'') initial_cache))
     = [Undici, FetchApi]
   \<and> snd (snd (fetchCfBmCookie env_cookie 1000 (lit ''sk-test-token'') initial_cache)) = [Undici]"
proof -
  let ?k = "lit ''sk-test-token''"
  have m: "\<not> cache_hit initial_cache 1000" by (rule initial_not_hit)
  have s: "REQUEST_TIMEOUT_MS \<le> undici_latency_ms (env_offline 10000) (priming_request ?k)"
    by (simp add: env_offline_def example_world_simps REQUEST_TIMEOUT_MS_def)
  have c: "undici_latency_ms env_connect_timeout (priming_request ?k) < REQUEST_TIMEOUT_MS"
    "undici_request env_connect_timeout (priming_request ?k) = Inl connect_timeout"
    by (simp_all add: env_connect_timeout_def example_world_simps REQUEST_TIMEOUT_MS_def)
  have d: "undici_latency_ms (env_offline 30) (priming_request ?k) < REQUEST_TIMEOUT_MS"
    "undici_request (env_offline 30) (priming_request ?k) = Inl network_down"
    by (simp_all add: env_offline_def example_world_simps REQUEST_TIMEOUT_MS_def)
  have a: "undici_latency_ms env_cookie (priming_request ?k) < REQUEST_TIMEOUT_MS"
    "undici_request env_cookie (priming_request ?k)
       = undici_answers 200 (ManyHeaders [lit ''__cf_bm=abc123; path=/'']) (Inl not_json)"
    by (simp_all add: env_cookie_def example_world_simps REQUEST_TIMEOUT_MS_def)
  note t = text_examples(2) text_examples(11)
  from fetchCfBmCookie_never_throws [of "env_offline 10000" 1000 ?k initial_cache]
       fetchCfBmCookie_never_throws [of env_connect_timeout 1000 ?k initial_cache connect_timeout]
       fetchCfBmCookie_never_throws [of "env_offline 30" 1000 ?k initial_cache network_down]
       fetchCfBmCookie_never_throws [of env_cookie 1000 ?k initial_cache _
          "\<lparr>u_statusCode = 200, u_set_cookie = ManyHeaders [lit ''__cf_bm=abc123; path=/''],
            u_body_json = Inl not_json\<rparr>"]
       m s c d a t
  show ?thesis by (simp add: undici_answers_def)
qed

text \<open>
  C10. A call of \<open>fetchCfBmCookie\<close> that returns \<open>null\<close> leaves both cache variables as
  they were. A call that changes the cache has extracted a value \<open>v\<close> from the undici or
  the fetch response; \<open>v\<close> is non-empty and holds no \<open>;\<close>, the call returns
  \<open>__cf_bm=v\<close> and the cache holds that string with the expiry \<open>now\<close> plus 5 minutes.
  In every cache that a run can reach from the initial one, \<open>cfBmCookie\<close> is \<open>null\<close> or
  \<open>__cf_bm=v\<close> for a non-empty \<open>v\<close> without \<open>;\<close>.
\<close>

theorem cache_frame:
  "(fetchCfBmCookie w now k st = (r, st', a) \<longrightarrow>
      (r = Returned None \<longrightarrow> st' = st)
    \<and> (st' \<noteq> st \<longrightarrow>
         (\<exists>v. (prime_with_undici w (priming_request k) = Inr (Some v)
                \<or> prime_with_fetch w (priming_request k) = Inr (Some v))
              \<and> v \<noteq> [] \<and> 0x3B \<notin> set v
              \<and> r = Returned (Some (lit ''__cf_bm='' @ v))
              \<and> st' = \<lparr>cfBmCookie = Some (lit ''__cf_bm='' @ v),
                        cfBmCookieExpiry = now + CF_BM_COOKIE_CACHE_TTL_MS\<rparr>)))
   \<and> (reachable_cache st \<longrightarrow>
        cfBmCookie st = None
        \<or> (\<exists>v. cfBmCookie st = Some (lit ''__cf_bm='' @ v) \<and> v \<noteq> [] \<and> 0x3B \<notin> set v))"
proof -
  have frame: "fetchCfBmCookie w now k st = (r, st', a) \<longrightarrow>
      (r = Returned None \<longrightarrow> st' = st)
    \<and> (st' \<noteq> st \<longrightarrow>
         (\<exists>v. (prime_with_undici w (priming_request k) = Inr (Some v)
                \<or> prime_with_fetch w (priming_request k) = Inr (Some v))
              \<and> v \<noteq> [] \<and> 0x3B \<notin> set v
              \<and> r = Returned (Some (lit ''__cf_bm='' @ v))
              \<and> st' = \<lparr>cfBmCookie = Some (lit ''__cf_bm='' @ v),
                        cfBmCookieExpiry = now + CF_BM_COOKIE_CACHE_TTL_MS\<rparr>))"
  proof
    assume f: "fetchCfBmCookie w now k st = (r, st', a)"
    from fetchCfBmCookie_outcomes [OF f]
    show "(r = Returned None \<longrightarrow> st' = st)
    \<and> (st' \<noteq> st \<longrightarrow>
         (\<exists>v. (prime_with_undici w (priming_request k) = Inr (Some v)
                \<or> prime_with_fetch w (priming_request k) = Inr (Some v))
              \<and> v \<noteq> [] \<and> 0x3B \<notin> set v
              \<and> r = Returned (Some (lit ''__cf_bm='' @ v))
              \<and> st' = \<lparr>cfBmCookie = Some (lit ''__cf_bm='' @ v),
                        cfBmCookieExpiry = now + CF_BM_COOKIE_CACHE_TTL_MS\<rparr>))"
      by (auto simp: cf_bm_value_def stored_def cache_hit_def)
  qed
  have inv: "reachable_cache st \<longrightarrow>
        cfBmCookie st = None
        \<or> (\<exists>v. cfBmCookie st = Some (lit ''__cf_bm='' @ v) \<and> v \<noteq> [] \<and> 0x3B \<notin> set v)"
  proof
    assume "reachable_cache st"
    then show "cfBmCookie st = None
        \<or> (\<exists>v. cfBmCookie st = Some (lit ''__cf_bm='' @ v) \<and> v \<noteq> [] \<and> 0x3B \<notin> set v)"
    proof (induction rule: reachable_cache.induct)
      case initial
      then show ?case by (simp add: initial_cache_def)
    next
      case (call st w now sessionKey r st' attempts)
      from fetchCfBmCookie_outcomes [OF call.hyps(2)] call.IH
      show ?case by (auto simp: cf_bm_value_def stored_def)
    qed
  qed
  from frame inv show ?thesis by blast
qed

theorem cache_frame_witness:
  "fetchCfBmCookie (env_offline 30) 1000 (lit ''sk-test-token'') initial_cache
     = (Returned None, initial_cache, [Undici, FetchApi])
   \<and> reachable_cache (stored (lit ''abc123'') 1000)
   \<and> cfBmCookie (stored (lit ''abc123'') 1000) = Some (lit ''__cf_bm='' @ lit ''abc123'')
   \<and> stored (lit ''abc123'') 1000 \<noteq> initial_cache"
proof -
  note a = priming_examples(3) [of 1000 "lit ''sk-test-token''"]
  note b = priming_examples(1) [of 1000 "lit ''sk-test-token''"]
  have r: "reachable_cache (stored (lit ''abc123'') 1000)"
    by (rule reachable_cache.call [OF reachable_cache.initial a])
  have n: "stored (lit ''abc123'') 1000 \<noteq> initial_cache"
    by (simp add: stored_def initial_cache_def)
  from cache_frame [of env_cookie 1000 "lit ''sk-test-token''" initial_cache
          "Returned (Some (lit ''__cf_bm=abc123''))" "stored (lit ''abc123'') 1000" "[Undici]"]
       cache_frame [of "env_offline 30" 1000 "lit ''sk-test-token''" initial_cache
          "Returned None" initial_cache "[Undici, FetchApi]"]
       a b r n
  show ?thesis by (simp add: stored_def)
qed

section \<open>Claims about the request dispatcher\<close>

text \<open>
  In the theorems of this section \<open>enc\<close> is the escaped organization id, \<open>cf\<close> the
  cookie that \<open>fetchCfBmCookie\<close> returned, \<open>usage_request enc k cf\<close> the request handed
  to the three methods, and \<open>called\<close> the methods that the fallback loop called, in order.
\<close>

text \<open>
  C1. The methods called by \<open>fetchUsage\<close> are an initial part of fetch, undici, axios,
  in that order, so none is called twice. When \<open>fetchUsage\<close> returns a value, the last
  method called answered with a 2xx status and that parsed body, and every method called
  before it threw; a called method that answers with a 2xx status and a parsed body ends the
  loop with that body as the result. In particular, when fetch and undici both throw errors
  with a bot-challenge marker and axios succeeds, the body from axios is returned after all
  three were called once.
\<close>

theorem fetchUsage_fallback_order:
  assumes "encodeURIComponent w org = Inr enc"
    and "fetchCfBmCookie w now k st = (Returned cf, st', primed)"
    and "fetchUsage w now org k st = (r, st2, called)"
  shows "prefix called [FetchApi, Undici, Axios] \<and> called \<noteq> [] \<and> distinct called
    \<and> (\<forall>d. r = Returned d \<longrightarrow>
           success_2xx (last called) w (usage_request enc k cf) d
         \<and> (\<forall>t \<in> set (butlast called). \<exists>e. run_strategy t w (usage_request enc k cf) = Threw e))
    \<and> (\<forall>t \<in> set called. \<forall>d. success_2xx t w (usage_request enc k cf) d \<longrightarrow>
           r = Returned d \<and> t = last called)
    \<and> (\<forall>e1 e2 d. run_strategy FetchApi w (usage_request enc k cf) = Threw e1
           \<and> bot_challenge (loop_errorMsg e1)
           \<and> run_strategy Undici w (usage_request enc k cf) = Threw e2
           \<and> bot_challenge (loop_errorMsg e2)
           \<and> run_strategy Axios w (usage_request enc k cf) = Returned d
         \<longrightarrow> r = Returned d \<and> called = [FetchApi, Undici, Axios])"
proof -
  let ?req = "usage_request enc k cf"
  note paths = fetchUsage_paths [OF assms]
  have order: "prefix called [FetchApi, Undici, Axios] \<and> called \<noteq> [] \<and> distinct called"
    using paths by (auto simp: prefix_def)
  have first: "\<forall>d. r = Returned d \<longrightarrow>
           success_2xx (last called) w ?req d
         \<and> (\<forall>t \<in> set (butlast called). \<exists>e. run_strategy t w ?req = Threw e)"
    using paths unfolding run_strategy_Returned_iff [symmetric] by auto
  have stop: "\<forall>t \<in> set called. \<forall>d. success_2xx t w ?req d \<longrightarrow> r = Returned d \<and> t = last called"
    using paths unfolding run_strategy_Returned_iff [symmetric] by auto
  have scenario: "\<forall>e1 e2 d. run_strategy FetchApi w ?req = Threw e1
           \<and> bot_challenge (loop_errorMsg e1)
           \<and> run_strategy Undici w ?req = Threw e2
           \<and> bot_challenge (loop_errorMsg e2)
           \<and> run_strategy Axios w ?req = Returned d
         \<longrightarrow> r = Returned d \<and> called = [FetchApi, Undici, Axios]"
  proof (intro allI impI)
    fix e1 e2 d
    assume h: "run_strategy FetchApi w ?req = Threw e1
           \<and> bot_challenge (loop_errorMsg e1)
           \<and> run_strategy Undici w ?req = Threw e2
           \<and> bot_challenge (loop_errorMsg e2)
           \<and> run_strategy Axios w ?req = Returned d"
    then have "\<not> genuine_http_error e1" "\<not> genuine_http_error e2"
      by (simp_all add: bot_challenge_not_genuine)
    with h paths show "r = Returned d \<and> called = [FetchApi, Undici, Axios]"
      by (elim conjE disjE exE) simp_all
  qed
  from order first stop scenario show ?thesis by blast
qed


theorem fetchUsage_fallback_order_witness:
  "fetchUsage env_third_succeeds 1000 (lit ''abc123'') (lit ''sk-test-token'') initial_cache
     = (Returned example_usage, initial_cache, [FetchApi, Undici, Axios])
   \<and> success_2xx Axios env_third_succeeds
       (usage_request (lit ''abc123'') (lit ''sk-test-token'') None) example_usage
   \<and> bot_challenge (loop_errorMsg (new_Error (lit ''HTTP 403: Just a moment...'')))
   \<and> bot_challenge (loop_errorMsg (new_Error (lit ''HTTP 403: {}'')))"
proof -
  note h1 = encode_examples(2) [of "lit ''abc123''"]
  note h2 = priming_examples(4) [of 1000 "lit ''sk-test-token''"]
  note h3 = fetchUsage_examples(2) [of 1000 "lit ''abc123''" "lit ''sk-test-token''"]
  have b: "bot_challenge (loop_errorMsg (new_Error (lit ''HTTP 403: Just a moment...'')))"
    "bot_challenge (loop_errorMsg (new_Error (lit ''HTTP 403: {}'')))"
    by (simp_all add: text_eval)
  from fetchUsage_fallback_order [OF h1 h2 h3] h3 b method_examples(4,5,6) show ?thesis by simp
qed

text \<open>
  C2. When a called method throws an error whose text holds \<open>HTTP\<close> and none of the four
  bot-challenge markers (which include \<open>403\<close>), \<open>fetchUsage\<close> throws that very error and
  no later method is called. In particular such an error from fetch leaves undici and axios
  uncalled, and a 404 answer to fetch whose body excerpt holds no marker is thrown as
  \<open>HTTP 404: <excerpt>\<close>.
\<close>

theorem fetchUsage_http_error_immediate:
  assumes "encodeURIComponent w org = Inr enc"
    and "fetchCfBmCookie w now k st = (Returned cf, st', primed)"
    and "fetchUsage w now org k st = (r, st2, called)"
  shows "prefix called [FetchApi, Undici, Axios]
    \<and> (\<forall>t \<in> set called. \<forall>e. run_strategy t w (usage_request enc k cf) = Threw e
            \<and> genuine_http_error e \<longrightarrow> r = Threw e \<and> t = last called)
    \<and> (\<forall>e. run_strategy FetchApi w (usage_request enc k cf) = Threw e \<and> genuine_http_error e
            \<longrightarrow> r = Threw e \<and> called = [FetchApi])
    \<and> (\<forall>resp body. fetch_api w (usage_request enc k cf) = Inr resp \<and> f_status resp = 404
            \<and> f_text resp = Inr body
            \<and> \<not> bot_challenge (lit ''HTTP 404: '' @ take 200 body)
            \<longrightarrow> r = Threw (new_Error (lit ''HTTP 404: '' @ take 200 body)) \<and> called = [FetchApi])"
proof -
  let ?req = "usage_request enc k cf"
  note paths = fetchUsage_paths [OF assms]
  have order: "prefix called [FetchApi, Undici, Axios]"
    using paths by (auto simp: prefix_def)
  have stop: "\<forall>t \<in> set called. \<forall>e. run_strategy t w ?req = Threw e
            \<and> genuine_http_error e \<longrightarrow> r = Threw e \<and> t = last called"
    using paths by auto
  have first: "\<forall>e. run_strategy FetchApi w ?req = Threw e \<and> genuine_http_error e
            \<longrightarrow> r = Threw e \<and> called = [FetchApi]"
    using paths by auto
  have nf: "\<forall>resp body. fetch_api w ?req = Inr resp \<and> f_status resp = 404
            \<and> f_text resp = Inr body
            \<and> \<not> bot_challenge (lit ''HTTP 404: '' @ take 200 body)
            \<longrightarrow> r = Threw (new_Error (lit ''HTTP 404: '' @ take 200 body)) \<and> called = [FetchApi]"
  proof (intro allI impI)
    fix resp body
    assume h: "fetch_api w ?req = Inr resp \<and> f_status resp = 404
            \<and> f_text resp = Inr body
            \<and> \<not> bot_challenge (lit ''HTTP 404: '' @ take 200 body)"
    let ?m = "lit ''HTTP 404: '' @ take 200 body"
    from h have m: "run_strategy FetchApi w ?req = Threw (new_Error ?m)"
      by (simp add: method1_404)
    have "str_includes (lit ''HTTP 404: '') (lit ''HTTP'')" by (simp add: lit_def)
    then have "str_includes ?m (lit ''HTTP'')" by (rule str_includes_append_left)
    with h have "genuine_http_error (new_Error ?m)" by (simp add: new_Error_genuine)
    with m first show "r = Threw (new_Error ?m) \<and> called = [FetchApi]" by blast
  qed
  from order stop first nf show ?thesis by blast
qed

theorem fetchUsage_http_error_immediate_witness:
  "fetchUsage env_not_found 1000 (lit ''abc123'') (lit ''sk-test-token'') initial_cache
     = (Threw (new_Error (lit ''HTTP 404: Not Found'')), initial_cache, [FetchApi])
   \<and> run_strategy FetchApi env_not_found (usage_request (lit ''abc123'') (lit ''sk-test-token'') None)
     = Threw (new_Error (lit ''HTTP 404: Not Found''))
   \<and> genuine_http_error (new_Error (lit ''HTTP 404: Not Found''))"
proof -
  note h1 = encode_examples(3) [of "lit ''abc123''"]
  note h2 = priming_examples(5) [of 1000 "lit ''sk-test-token''"]
  note h3 = fetchUsage_examples_first(1) [of 1000 "lit ''abc123''" "lit ''sk-test-token''"]
  from fetchUsage_http_error_immediate [OF h1 h2 h3] h3 text_examples(6) method_examples(7)
  show ?thesis by simp
qed

text \<open>
  C7. When all three methods were called and each threw, and the message of the last error
  (the one from axios) holds one of the markers \<open>Just a moment\<close>,
  \<open>cf-browser-verification\<close>, \<open>challenge-platform\<close> or \<open>403\<close>, the error that
  \<open>fetchUsage\<close> throws has that message followed by the remediation text. So its message
  contains the remediation text, with the line on the Cloudflare bot protection, the
  explanation and the three numbered steps; it is 440 code units longer than the raw error
  text and differs from it.
\<close>

theorem fetchUsage_exhausted_remediation:
  assumes "encodeURIComponent w org = Inr enc"
    and "fetchCfBmCookie w now k st = (Returned cf, st', primed)"
    and "fetchUsage w now org k st = (r, st2, called)"
    and "run_strategy FetchApi w (usage_request enc k cf) = Threw e1"
    and "run_strategy Undici w (usage_request enc k cf) = Threw e2"
    and "run_strategy Axios w (usage_request enc k cf) = Threw e3"
    and "called = [FetchApi, Undici, Axios]"
    and "bot_challenge (err_message e3)"
  shows "r = Threw (new_Error (err_message e3 @ cloudflare_remediation))
    \<and> (\<exists>m. r = Threw (new_Error m) \<and> str_includes m cloudflare_remediation
           \<and> holds_remediation_block m
           \<and> length m = length (err_message e3) + 440
           \<and> m \<noteq> err_message e3)"
proof -
  let ?m = "err_message e3 @ cloudflare_remediation"
  from assms(8) have "bot_challenge (loop_errorMsg e3)"
    by (simp add: bot_challenge_loop_errorMsg)
  then have g3: "\<not> genuine_http_error e3" by (rule bot_challenge_not_genuine)
  from fetchUsage_paths [OF assms(1-3)] assms(6,7) g3
  have "r = Threw (exhausted_error (Some e3))" by auto
  then have r: "r = Threw (new_Error ?m)"
    using assms(8) by (simp add: exhausted_error_bot)
  have i: "str_includes ?m cloudflare_remediation"
    by (rule str_includes_appendI)
  have b: "holds_remediation_block ?m"
    by (rule holds_remediation_block_append)
  have l: "length ?m = length (err_message e3) + 440"
    by (simp add: length_remediation)
  then have n: "?m \<noteq> err_message e3" by auto
  from r i b l n show ?thesis by blast
qed

theorem fetchUsage_exhausted_remediation_witness:
  "fetchUsage env_challenged 1000 (lit ''abc123'') (lit ''sk-test-token'') initial_cache
     = (Threw (new_Error (lit ''HTTP 403: Just a moment...'' @ cloudflare_remediation)),
        initial_cache, [FetchApi, Undici, Axios])
   \<and> bot_challenge (lit ''HTTP 403: Just a moment...'')
   \<and> str_includes (lit ''HTTP 403: Just a moment...'' @ cloudflare_remediation) cloudflare_remediation
   \<and> holds_remediation_block (lit ''HTTP 403: Just a moment...'' @ cloudflare_remediation)"
proof -
  note h1 = encode_examples(4) [of "lit ''abc123''"]
  note h2 = priming_examples(6) [of 1000 "lit ''sk-test-token''"]
  note h3 = fetchUsage_examples(3) [of 1000 "lit ''abc123''" "lit ''sk-test-token''"]
  have b: "bot_challenge (err_message (new_Error (lit ''HTTP 403: Just a moment...'')))"
    by (simp add: err_message_new_Error text_examples)
  from fetchUsage_exhausted_remediation
         [OF h1 h2 h3 method_examples(8) method_examples(9) method_examples(10) refl b]
       h3 text_examples(7)
  show ?thesis by (auto simp: err_message_new_Error new_Error_def)
qed




section \<open>Claims about the caller-facing layer\<close>

text \<open>
  C9, as stated, fails: a 2xx body whose \<open>utilization\<close> is \<open>Infinity\<close> (as \<open>JSON.parse\<close>
  reads \<open>1e999\<close>) and whose \<open>resets_at\<close> is the string \<open>soon\<close> is not reported as an
  unexpected shape; it is shown as 100% left, with the reset time \<open>soon\<close> as it is.
\<close>

theorem shape_check_counterexample:
  "fst (refreshAndRender env_infinite 1000 (lit ''abc123'') (Some (lit ''sk-test-token''))
          (lit ''left'') initial_cache)
     = Usage (PercentLeft (Finite 100)) (Verbatim (JStr (lit ''soon'')))
   \<and> fst (refreshAndRender env_infinite 1000 (lit ''abc123'') (Some (lit ''sk-test-token''))
          (lit ''left'') initial_cache) \<noteq> UnexpectedShape"
proof -
  have c: "clampPercent (js_minus (Finite 100) (clampPercent PosInf)) = Finite 100"
    by code_simp
  have "refreshAndRender env_infinite 1000 (lit ''abc123'') (Some (lit ''sk-test-token''))
          (lit ''left'') initial_cache
      = (Usage (PercentLeft (Finite 100)) (Verbatim (JStr (lit ''soon''))), initial_cache)"
    unfolding refreshAndRender_configured
      [of "lit ''abc123''" "lit ''sk-test-token''", unfolded trim_examples, OF trim_examples(3,4)]
      fetchUsage_examples_first(2)
    by (simp add: usage_body_def formatLocal_def example_eval c lit_def)
  then show ?thesis by simp
qed

text \<open>
  C9, amended. For a configured extension and a body \<open>data\<close> returned by \<open>fetchUsage\<close>,
  \<open>refreshAndRender\<close> reports an unexpected shape exactly when \<open>data?.five_hour\<close> is falsy,
  or its \<open>utilization\<close> is not of type number, or its \<open>resets_at\<close> is falsy (missing,
  \<open>null\<close>, empty). Otherwise the utilization goes through \<open>clampPercent\<close>, which gives 0
  for \<open>NaN\<close> and the infinities, and \<open>resets_at\<close> goes to \<open>new Date\<close>: when that gives a
  time the usage is shown with the local time, when it gives an invalid date the usage is
  shown with \<open>resets_at\<close> as it is, and when it throws (an object with no primitive value)
  the \<open>catch\<close> block shows the error view with the first 200 code units of the error's
  message. So neither a non-finite utilization nor an unparseable \<open>resets_at\<close> gives the
  unexpected-shape outcome, and no body makes \<open>refreshAndRender\<close> throw.
\<close>

theorem refreshAndRender_shape_check:
  assumes "trim organizationCode \<noteq> []" and "trim s \<noteq> []"
    and "fetchUsage w now (trim organizationCode) (trim s) st = (Returned data, st', called)"
  shows "(fst (refreshAndRender w now organizationCode (Some s) mode st) = UnexpectedShape
          \<longleftrightarrow> \<not> truthy (opt_get_prop data (lit ''five_hour''))
               \<or> \<not> is_number (get_prop (opt_get_prop data (lit ''five_hour'')) (lit ''utilization''))
               \<or> \<not> truthy (get_prop (opt_get_prop data (lit ''five_hour'')) (lit ''resets_at'')))
    \<and> (\<forall>n x. truthy (opt_get_prop data (lit ''five_hour''))
            \<and> get_prop (opt_get_prop data (lit ''five_hour'')) (lit ''utilization'') = JNum n
            \<and> truthy (get_prop (opt_get_prop data (lit ''five_hour'')) (lit ''resets_at''))
            \<and> Date_getTime w (get_prop (opt_get_prop data (lit ''five_hour'')) (lit ''resets_at'')) = Inr x
          \<longrightarrow> fst (refreshAndRender w now organizationCode (Some s) mode st)
              = Usage (if mode = lit ''left''
                       then PercentLeft (clampPercent (js_minus (Finite 100) (clampPercent n)))
                       else PercentUsed (clampPercent n))
                  (case x of
                     None \<Rightarrow> Verbatim (get_prop (opt_get_prop data (lit ''five_hour'')) (lit ''resets_at''))
                   | Some ms \<Rightarrow> LocaleString ms))
    \<and> (\<forall>n e. truthy (opt_get_prop data (lit ''five_hour''))
            \<and> get_prop (opt_get_prop data (lit ''five_hour'')) (lit ''utilization'') = JNum n
            \<and> truthy (get_prop (opt_get_prop data (lit ''five_hour'')) (lit ''resets_at''))
            \<and> Date_getTime w (get_prop (opt_get_prop data (lit ''five_hour'')) (lit ''resets_at'')) = Inl e
          \<longrightarrow> fst (refreshAndRender w now organizationCode (Some s) mode st)
              = Failure (take 200 (err_message e)) (str_includes (take 200 (err_message e)) (lit ''403'')))
    \<and> clampPercent NaN = Finite 0 \<and> clampPercent PosInf = Finite 0 \<and> clampPercent NegInf = Finite 0"
proof -
  let ?five = "opt_get_prop data (lit ''five_hour'')"
  let ?resets = "get_prop ?five (lit ''resets_at'')"
  let ?view = "fst (refreshAndRender w now organizationCode (Some s) mode st)"
  note rr = refreshAndRender_configured [OF assms(1,2), of w now mode st, unfolded assms(3)]
  have shape: "?view = UnexpectedShape
          \<longleftrightarrow> \<not> truthy ?five \<or> \<not> is_number (get_prop ?five (lit ''utilization''))
               \<or> \<not> truthy ?resets"
    by (cases "get_prop ?five (lit ''utilization'')"; cases "formatLocal w ?resets")
      (simp_all add: rr Let_def show_error_eq)
  have usage: "\<forall>n x. truthy ?five \<and> get_prop ?five (lit ''utilization'') = JNum n
            \<and> truthy ?resets \<and> Date_getTime w ?resets = Inr x
          \<longrightarrow> ?view
              = Usage (if mode = lit ''left''
                       then PercentLeft (clampPercent (js_minus (Finite 100) (clampPercent n)))
                       else PercentUsed (clampPercent n))
                  (case x of None \<Rightarrow> Verbatim ?resets | Some ms \<Rightarrow> LocaleString ms)"
    by (auto simp: rr Let_def formatLocal_def split: option.splits)
  have thrown: "\<forall>n e. truthy ?five \<and> get_prop ?five (lit ''utilization'') = JNum n
            \<and> truthy ?resets \<and> Date_getTime w ?resets = Inl e
          \<longrightarrow> ?view
              = Failure (take 200 (err_message e)) (str_includes (take 200 (err_message e)) (lit ''403''))"
    by (simp add: rr Let_def formatLocal_def show_error_eq safeErrorMessage_def substring0_def
        ERROR_MESSAGE_MAX_LENGTH_def)
  have clamp: "clampPercent NaN = Finite 0 \<and> clampPercent PosInf = Finite 0 \<and> clampPercent NegInf = Finite 0"
    by (simp add: clampPercent_def)
  from shape usage thrown clamp show ?thesis by blast
qed

theorem refreshAndRender_shape_check_witness:
  "fst (refreshAndRender env_third_succeeds 1000 (lit ''abc123'') (Some (lit ''sk-test-token''))
          (lit ''left'') initial_cache)
     = Usage (PercentLeft (Finite 58)) (LocaleString 1735689600000)
   \<and> truthy (opt_get_prop example_usage (lit ''five_hour''))
   \<and> truthy (get_prop (opt_get_prop example_usage (lit ''five_hour'')) (lit ''resets_at''))
   \<and> fst (refreshAndRender env_bad_date 1000 (lit ''abc123'') (Some (lit ''sk-test-token''))
          (lit ''left'') initial_cache)
     = Failure (lit ''Cannot convert object to primitive value'') False"
proof -
  let ?bad = "usage_body (JNum (Finite 42)) (JObj [(lit ''toString'', JNum (Finite 0))])"
  have t: "trim (lit ''abc123'') \<noteq> []" "trim (lit ''sk-test-token'') \<noteq> []"
    by (simp_all add: trim_examples)
  note f = fetchUsage_examples(2)
    [of 1000 "trim (lit ''abc123'')" "trim (lit ''sk-test-token'')"]
  note fb = fetchUsage_examples_first(3)
    [of 1000 "trim (lit ''abc123'')" "trim (lit ''sk-test-token'')"]
  have p: "opt_get_prop example_usage (lit ''five_hour'')
      = JObj [(lit ''utilization'', JNum (Finite 42)),
              (lit ''resets_at'', JStr (lit ''2025-01-01T00:00:00Z''))]"
    by (simp add: example_usage_def usage_body_def)
  have g: "get_prop (opt_get_prop example_usage (lit ''five_hour'')) (lit ''utilization'')
      = JNum (Finite 42)"
    "get_prop (opt_get_prop example_usage (lit ''five_hour'')) (lit ''resets_at'')
      = JStr (lit ''2025-01-01T00:00:00Z'')"
    "lit ''2025-01-01T00:00:00Z'' \<noteq> []"
    unfolding p by (simp_all add: lit_def)
  have c: "clampPercent (js_minus (Finite 100) (clampPercent (Finite 42))) = Finite 58"
    by code_simp
  have d: "Date_getTime env_third_succeeds (JStr (lit ''2025-01-01T00:00:00Z''))
      = Inr (Some 1735689600000)"
    by (simp add: example_eval)
  have pb: "opt_get_prop ?bad (lit ''five_hour'')
      = JObj [(lit ''utilization'', JNum (Finite 42)),
              (lit ''resets_at'', JObj [(lit ''toString'', JNum (Finite 0))])]"
    by (simp add: usage_body_def)
  have gb: "get_prop (opt_get_prop ?bad (lit ''five_hour'')) (lit ''utilization'') = JNum (Finite 42)"
    "get_prop (opt_get_prop ?bad (lit ''five_hour'')) (lit ''resets_at'')
      = JObj [(lit ''toString'', JNum (Finite 0))]"
    unfolding pb by (simp_all add: lit_def)
  have db: "Date_getTime env_bad_date (JObj [(lit ''toString'', JNum (Finite 0))]) = Inl no_primitive"
    by (simp add: example_eval)
  have eb: "take 200 (err_message no_primitive) = lit ''Cannot convert object to primitive value''"
    "\<not> str_includes (lit ''Cannot convert object to primitive value'') (lit ''403'')"
    by (simp_all add: no_primitive_def lit_def)
  from refreshAndRender_shape_check [OF t f, of "lit ''left''"]
       refreshAndRender_shape_check [OF t fb, of "lit ''left''"]
       g c d p pb gb db eb
  show ?thesis by simp
qed

end
